theory Spec2Isabelle
  imports Complex_Main "HOL-Library.Multiset"
begin

section \<open>Asteroid impact and deflection core: a shallow embedding\<close>

text \<open>
  The Python sources embedded here are \<^verbatim>\<open>utils/calculations.py\<close>,
  \<^verbatim>\<open>models/asteroid.py\<close>, \<^verbatim>\<open>models/impact_physics.py\<close> and
  \<^verbatim>\<open>models/mitigation.py\<close>.

  Conventions of the embedding:
  \<^item> a Python \<^verbatim>\<open>float\<close> (and an \<^verbatim>\<open>int\<close> that only ever meets floats) is a
    \<^typ>\<open>real\<close>: arithmetic is exact, rounding and overflow of IEEE doubles are not
    represented;
  \<^item> an exception is a value \<open>Inl e\<close> of \<open>py_error + 'a\<close>; the exceptions are the
    ones the interpreter itself raises in these modules (the modules define none);
  \<^item> a \<^verbatim>\<open>dict\<close> whose insertion order is observable is an association list;
  \<^item> an f-string is the list of its literal pieces and formatted holes.
\<close>

subsection \<open>Python primitives\<close>

datatype py_error = ZeroDivisionError | ValueError | TypeError | UnboundLocalError | IndexError

definition bindE :: "py_error + 'a \<Rightarrow> ('a \<Rightarrow> py_error + 'b) \<Rightarrow> py_error + 'b" where
  "bindE m f = (case m of Inl e \<Rightarrow> Inl e | Inr x \<Rightarrow> f x)"

fun mapE :: "('a \<Rightarrow> py_error + 'b) \<Rightarrow> 'a list \<Rightarrow> py_error + 'b list" where
  "mapE f [] = Inr []"
| "mapE f (x # xs) = bindE (f x) (\<lambda>y. bindE (mapE f xs) (\<lambda>ys. Inr (y # ys)))"

text \<open>\<^verbatim>\<open>a / b\<close> on floats raises \<^verbatim>\<open>ZeroDivisionError\<close> when \<^verbatim>\<open>b == 0\<close>.\<close>

definition py_div :: "real \<Rightarrow> real \<Rightarrow> py_error + real" where
  "py_div a b = (if b = 0 then Inl ZeroDivisionError else Inr (a / b))"

text \<open>\<^verbatim>\<open>math.log\<close>, \<^verbatim>\<open>math.log10\<close> and \<^verbatim>\<open>math.sqrt\<close> raise
  \<^verbatim>\<open>ValueError\<close> (math domain error) outside their domain.\<close>

definition math_log :: "real \<Rightarrow> py_error + real" where
  "math_log x = (if x \<le> 0 then Inl ValueError else Inr (ln x))"

definition math_log10 :: "real \<Rightarrow> py_error + real" where
  "math_log10 x = (if x \<le> 0 then Inl ValueError else Inr (log 10 x))"

definition math_sqrt :: "real \<Rightarrow> py_error + real" where
  "math_sqrt x = (if x < 0 then Inl ValueError else Inr (sqrt x))"

definition math_radians :: "real \<Rightarrow> real" where
  "math_radians x = x * pi / 180"

text \<open>
  \<^verbatim>\<open>x ** y\<close> for a float \<open>x\<close> and one of the non-integral exponents used in these
  modules (0.28, 0.33): for \<open>x \<ge> 0\<close> it is the real power (\<^verbatim>\<open>0.0 ** y == 0.0\<close>); for
  \<open>x < 0\<close> Python returns a \<^verbatim>\<open>complex\<close>, which is \<open>None\<close> here.
\<close>

definition py_pow :: "real \<Rightarrow> real \<Rightarrow> real option" where
  "py_pow x y = (if x < 0 then None else Some (x powr y))"

text \<open>The pieces of an f-string: literal text and formatted values.\<close>

datatype fpart =
    Lit string
  | Fmt1f real   \<comment> \<open>\<^verbatim>\<open>{x:.1f}\<close>\<close>
  | Fmt0f real   \<comment> \<open>\<^verbatim>\<open>{x:.0f}\<close>\<close>
  | FmtInt int   \<comment> \<open>\<^verbatim>\<open>{n}\<close> for an int\<close>
  | FmtFloat real \<comment> \<open>\<^verbatim>\<open>{x}\<close> for a float\<close>

type_synonym fstring = "fpart list"

subsection \<open>\<^verbatim>\<open>utils/calculations.py\<close>\<close>

definition kinetic_energy_joules :: "real \<Rightarrow> real \<Rightarrow> real" where
  "kinetic_energy_joules mass velocity = 0.5 * mass * velocity ^ 2"

definition tnt_equivalent :: "real \<Rightarrow> real" where
  "tnt_equivalent energy_joules = energy_joules / (4.184 * 10 ^ 15)"

subsection \<open>\<^verbatim>\<open>models/asteroid.py\<close>\<close>

text \<open>
  The attributes set by \<^verbatim>\<open>Asteroid.__init__\<close>. \<^verbatim>\<open>diameter\<close> and
  \<^verbatim>\<open>velocity\<close> are stored as passed, so they may be \<^verbatim>\<open>None\<close>; \<^verbatim>\<open>density\<close>
  and \<^verbatim>\<open>angle\<close> are always numbers after construction.
\<close>

record Asteroid =
  ast_diameter :: "real option"
  ast_velocity :: "real option"
  ast_density :: real
  ast_angle :: real

definition DENSITY_TYPES :: "string \<rightharpoonup> real" where
  "DENSITY_TYPES = [''rocky'' \<mapsto> 3000, ''metallic'' \<mapsto> 8000, ''icy'' \<mapsto> 1000]"

text \<open>Truthiness of an optional number: \<^verbatim>\<open>None\<close> and \<^verbatim>\<open>0\<close> are falsy.\<close>

definition truthy :: "real option \<Rightarrow> bool" where
  "truthy x = (case x of None \<Rightarrow> False | Some v \<Rightarrow> v \<noteq> 0)"

text \<open>\<^verbatim>\<open>x or d\<close> for an optional number \<open>x\<close> and a number \<open>d\<close>.\<close>

definition py_or :: "real option \<Rightarrow> real \<Rightarrow> real" where
  "py_or x d = (case x of None \<Rightarrow> d | Some v \<Rightarrow> if v = 0 then d else v)"

definition Asteroid_init ::
  "real option \<Rightarrow> real option \<Rightarrow> real option \<Rightarrow> real option \<Rightarrow> string option \<Rightarrow> Asteroid" where
  "Asteroid_init diameter velocity density angle type_name =
     \<lparr> ast_diameter = diameter,
       ast_velocity = velocity,
       ast_density =
         (case type_name of
            None \<Rightarrow> py_or density (the (DENSITY_TYPES ''rocky''))
          | Some t \<Rightarrow>
              if t \<noteq> [] \<and> t \<in> dom DENSITY_TYPES then the (DENSITY_TYPES t)
              else py_or density (the (DENSITY_TYPES ''rocky''))),
       ast_angle = py_or angle 45 \<rparr>"

definition Asteroid_radius :: "Asteroid \<Rightarrow> real" where
  "Asteroid_radius a = (if truthy (ast_diameter a) then the (ast_diameter a) / 2 else 0)"

definition Asteroid_mass :: "Asteroid \<Rightarrow> real" where
  "Asteroid_mass a =
     (if \<not> truthy (ast_diameter a) then 0
      else let volume = (4 / 3) * pi * Asteroid_radius a ^ 3
           in volume * ast_density a)"

definition Asteroid_kinetic_energy :: "Asteroid \<Rightarrow> real" where
  "Asteroid_kinetic_energy a =
     (if \<not> truthy (ast_velocity a) then 0
      else let velocity_ms = the (ast_velocity a) * 1000
           in kinetic_energy_joules (Asteroid_mass a) velocity_ms)"

definition Asteroid_impact_energy :: "Asteroid \<Rightarrow> real" where
  "Asteroid_impact_energy a =
     (let vertical_factor = cos (math_radians (ast_angle a))
      in Asteroid_kinetic_energy a * vertical_factor ^ 2)"

definition Asteroid_tnt_equivalent :: "Asteroid \<Rightarrow> real" where
  "Asteroid_tnt_equivalent a = tnt_equivalent (Asteroid_impact_energy a)"

subsection \<open>\<^verbatim>\<open>models/impact_physics.py\<close>: parameters and energy\<close>

record ImpactParameters =
  diameter :: real
  velocity :: real
  density :: real
  angle :: real
  target_type :: string

definition EARTH_GRAVITY :: real where
  "EARTH_GRAVITY = 9.81"

text \<open>The class constant, with the value the source gives it.\<close>

definition TNT_EQUIVALENT :: real where
  "TNT_EQUIVALENT = 4.184 * 10 ^ 12"

text \<open>The entries \<^verbatim>\<open>calculate_kinetic_energy\<close> writes into \<^verbatim>\<open>self.results\<close>.\<close>

record energy_results =
  mass :: real
  kinetic_energy_joules_r :: real
  kinetic_energy_megatons :: real
  effective_energy :: real
  effective_megatons :: real
  hiroshima_equivalent :: real

definition calculate_kinetic_energy :: "ImpactParameters \<Rightarrow> energy_results" where
  "calculate_kinetic_energy params =
     (let radius = diameter params / 2;
          volume = (4 / 3) * pi * radius ^ 3;
          mass = volume * density params;
          velocity_ms = velocity params * 1000;
          kinetic_energy = 0.5 * mass * velocity_ms ^ 2;
          megatons_tnt = kinetic_energy / TNT_EQUIVALENT;
          angle_factor = sin (math_radians (angle params));
          effective_energy = kinetic_energy * angle_factor
      in \<lparr> mass = mass,
           kinetic_energy_joules_r = kinetic_energy,
           kinetic_energy_megatons = megatons_tnt,
           effective_energy = effective_energy,
           effective_megatons = effective_energy / TNT_EQUIVALENT,
           hiroshima_equivalent = megatons_tnt / 0.015 \<rparr>)"

subsection \<open>\<^verbatim>\<open>models/impact_physics.py\<close>: the effect stages\<close>

text \<open>
  Each stage reads some entries of \<^verbatim>\<open>self.results\<close> and writes others. A stage is
  a function of the entries it reads; its value is the group of entries it writes.
\<close>

record crater_results =
  crater_diameter_km :: real
  crater_diameter_m :: real
  crater_depth_km :: real
  crater_depth_m :: real
  crater_volume_km3 :: real

text \<open>
  \<open>None\<close> stands for the complex values that \<^verbatim>\<open>energy_mt ** 0.28\<close> produces from a
  negative energy.
\<close>

definition calculate_crater_dimensions :: "ImpactParameters \<Rightarrow> real \<Rightarrow> crater_results option" where
  "calculate_crater_dimensions params energy_mt =
     (let scaling_constant = (if target_type params = ''land'' then 1.8 else 2.2)
      in case py_pow energy_mt 0.28 of
           None \<Rightarrow> None
         | Some p \<Rightarrow>
             let crater_diameter = scaling_constant * p;
                 crater_depth = crater_diameter / 5;
                 crater_volume = (pi / 4) * crater_diameter ^ 2 * crater_depth
             in Some \<lparr> crater_diameter_km = crater_diameter,
                       crater_diameter_m = crater_diameter * 1000,
                       crater_depth_km = crater_depth,
                       crater_depth_m = crater_depth * 1000,
                       crater_volume_km3 = crater_volume \<rparr>)"

record seismic_results =
  seismic_magnitude :: real
  seismic_intensities :: "(int \<times> fstring) list"

text \<open>
  One pass of the loop over \<^verbatim>\<open>distances\<close>. Inside the crater radius the source
  assigns the local variable \<^verbatim>\<open>intensity\<close> and stores nothing in
  \<^verbatim>\<open>intensities\<close>, hence \<open>None\<close>.
\<close>

definition seismic_intensity :: "real \<Rightarrow> real \<Rightarrow> int \<Rightarrow> py_error + (int \<times> fstring) option" where
  "seismic_intensity magnitude crater_radius distance =
     (if real_of_int distance < crater_radius then Inr None
      else
        bindE (py_div (real_of_int distance) crater_radius) (\<lambda>q.
        bindE (math_log10 q) (\<lambda>lg.
          let intensity_value = magnitude - 1.5 * lg;
              intensity_value = max 0 (min 12 intensity_value)
          in Inr (Some (distance,
               if intensity_value \<ge> 10 then
                 [Lit ''X-XII (Extreme - '', Fmt1f intensity_value, Lit '')'']
               else if intensity_value \<ge> 8 then
                 [Lit ''VIII-IX (Severe - '', Fmt1f intensity_value, Lit '')'']
               else if intensity_value \<ge> 6 then
                 [Lit ''VI-VII (Strong - '', Fmt1f intensity_value, Lit '')'']
               else if intensity_value \<ge> 4 then
                 [Lit ''IV-V (Moderate - '', Fmt1f intensity_value, Lit '')'']
               else
                 [Lit ''I-III (Minor - '', Fmt1f intensity_value, Lit '')''])))))"

definition seismic_distances :: "int list" where
  "seismic_distances = [10, 50, 100, 500, 1000, 5000]"

definition calculate_seismic_effects :: "real \<Rightarrow> real \<Rightarrow> py_error + seismic_results" where
  "calculate_seismic_effects energy_joules crater_diameter =
     (let magnitude = (if energy_joules > 0 then 0.67 * log 10 energy_joules - 5.87 else 0);
          crater_radius = crater_diameter / 2
      in bindE (mapE (seismic_intensity magnitude crater_radius) seismic_distances)
           (\<lambda>entries.
              Inr \<lparr> seismic_magnitude = magnitude,
                    seismic_intensities = List.map_filter id entries \<rparr>))"

record blast_entry =
  overpressure_psi :: real
  blast_effect :: string

definition blast_effect_at :: "real \<Rightarrow> int \<Rightarrow> py_error + (int \<times> blast_entry) option" where
  "blast_effect_at energy_mt distance =
     (if distance = 0 then Inr None
      else
        case py_pow energy_mt 0.33 of
          None \<Rightarrow> Inl TypeError
        | Some p \<Rightarrow>
            bindE (py_div (real_of_int distance) p) (\<lambda>scaled_distance.
              Inr (Some (distance,
                if scaled_distance < 0.1 then
                  \<lparr> overpressure_psi = 100, blast_effect = ''Complete annihilation'' \<rparr>
                else if scaled_distance < 0.5 then
                  \<lparr> overpressure_psi = 20, blast_effect = ''Reinforced concrete destroyed'' \<rparr>
                else if scaled_distance < 1 then
                  \<lparr> overpressure_psi = 10, blast_effect = ''Heavy damage to buildings'' \<rparr>
                else if scaled_distance < 2 then
                  \<lparr> overpressure_psi = 5, blast_effect = ''Most buildings collapse'' \<rparr>
                else if scaled_distance < 5 then
                  \<lparr> overpressure_psi = 2, blast_effect = ''Moderate damage to structures'' \<rparr>
                else if scaled_distance < 10 then
                  \<lparr> overpressure_psi = 1, blast_effect = ''Window breakage'' \<rparr>
                else
                  \<lparr> overpressure_psi = 0.1, blast_effect = ''Minor damage'' \<rparr>))))"

definition blast_distances :: "int list" where
  "blast_distances = [1, 5, 10, 25, 50, 100, 250, 500]"

definition calculate_blast_effects :: "real \<Rightarrow> py_error + (int \<times> blast_entry) list" where
  "calculate_blast_effects energy_mt =
     bindE (mapE (blast_effect_at energy_mt) blast_distances)
       (\<lambda>entries. Inr (List.map_filter id entries))"

record thermal_entry =
  thermal_flux_cal_cm2 :: real
  thermal_effect :: string

definition thermal_effect_at :: "real \<Rightarrow> int \<Rightarrow> (int \<times> thermal_entry) option" where
  "thermal_effect_at thermal_energy_mt distance =
     (if distance = 0 then None
      else
        let thermal_flux =
              (thermal_energy_mt * 10 ^ 6) / (4 * pi * real_of_int distance ^ 2)
        in Some (distance,
             \<lparr> thermal_flux_cal_cm2 = thermal_flux,
               thermal_effect =
                 (if thermal_flux > 500 then ''Everything ignites, vaporization''
                  else if thermal_flux > 100 then ''Third-degree burns, fires''
                  else if thermal_flux > 40 then ''Second-degree burns''
                  else if thermal_flux > 10 then ''First-degree burns''
                  else if thermal_flux > 5 then ''Pain, minor burns''
                  else ''No significant burns'') \<rparr>))"

definition thermal_distances :: "int list" where
  "thermal_distances = [1, 5, 10, 25, 50, 100, 250]"

definition calculate_thermal_effects :: "real \<Rightarrow> (int \<times> thermal_entry) list" where
  "calculate_thermal_effects energy_mt =
     (let thermal_energy_mt = energy_mt * 0.3
      in List.map_filter (thermal_effect_at thermal_energy_mt) thermal_distances)"

record tsunami_entry =
  wave_height_m :: real
  arrival_time_hours :: real
  hazard_level :: string

record tsunami_results =
  tsunami_initial_height_m :: real
  tsunami_speed_kmh :: real
  tsunami_effects :: "(int \<times> tsunami_entry) list"

definition tsunami_effect_at :: "real \<Rightarrow> real \<Rightarrow> int \<Rightarrow> int \<times> tsunami_entry" where
  "tsunami_effect_at initial_wave_height speed_kmh distance =
     (let wave_height = initial_wave_height * sqrt (100 / real_of_int distance);
          time_hours = real_of_int distance / speed_kmh
      in (distance,
          \<lparr> wave_height_m = wave_height,
            arrival_time_hours = time_hours,
            hazard_level =
              (if wave_height > 100 then ''Catastrophic - mega-tsunami''
               else if wave_height > 50 then ''Extreme - regional devastation''
               else if wave_height > 20 then ''Severe - major coastal damage''
               else if wave_height > 10 then ''High - significant flooding''
               else if wave_height > 3 then ''Moderate - coastal flooding''
               else ''Low - minor effects'') \<rparr>))"

definition tsunami_distances :: "int list" where
  "tsunami_distances = [100, 500, 1000, 2000, 5000]"

text \<open>
  \<open>Inr None\<close> is the early \<^verbatim>\<open>return\<close> for a target that is not water. The two
  divisions of the loop have the non-zero divisors \<^verbatim>\<open>distance\<close> (from the fixed list)
  and \<^verbatim>\<open>tsunami_speed_kmh\<close> (a positive constant).
\<close>

definition calculate_tsunami_effects ::
  "ImpactParameters \<Rightarrow> real \<Rightarrow> py_error + tsunami_results option" where
  "calculate_tsunami_effects params energy_mt =
     (if target_type params \<noteq> ''water'' then Inr None
      else
        bindE (math_sqrt (energy_mt * 1000)) (\<lambda>root.
          let initial_wave_height = 0.1 * root;
              tsunami_speed = sqrt (EARTH_GRAVITY * 4000);
              speed_kmh = tsunami_speed * 3.6
          in Inr (Some \<lparr> tsunami_initial_height_m = initial_wave_height,
                         tsunami_speed_kmh = speed_kmh,
                         tsunami_effects =
                           map (tsunami_effect_at initial_wave_height speed_kmh)
                             tsunami_distances \<rparr>)))"

record atmospheric_results =
  ejecta_mass_kg :: real
  atmospheric_dust_kg :: real
  cooling_effect :: string
  climate_disruption_years :: real

definition calculate_atmospheric_effects :: "real \<Rightarrow> real \<Rightarrow> atmospheric_results" where
  "calculate_atmospheric_effects energy_mt crater_volume =
     (let ejecta_mass = crater_volume * (2.5 * 10 ^ 12);
          dust_stratosphere = ejecta_mass * 0.001
      in \<lparr> ejecta_mass_kg = ejecta_mass,
           atmospheric_dust_kg = dust_stratosphere,
           cooling_effect =
             (if energy_mt > 10 ^ 6 then ''Extinction-level event''
              else if energy_mt > 10 ^ 4 then ''Global winter''
              else if energy_mt > 1000 then ''Regional climate disruption''
              else if energy_mt > 100 then ''Temporary cooling''
              else ''Negligible''),
           climate_disruption_years =
             (if energy_mt > 10 ^ 6 then 10
              else if energy_mt > 10 ^ 4 then 3
              else if energy_mt > 1000 then 1
              else if energy_mt > 100 then 0.1
              else 0) \<rparr>)"

record ejecta_entry =
  thickness_m :: real
  ejecta_effect :: string

record ejecta_results =
  ejecta_blanket_radius_km :: real
  ejecta_effects :: "(int \<times> ejecta_entry) list"

definition ejecta_effect_at :: "real \<Rightarrow> real \<Rightarrow> int \<Rightarrow> (int \<times> ejecta_entry) option" where
  "ejecta_effect_at crater_diameter ejecta_radius distance =
     (if real_of_int distance < ejecta_radius then
        let thickness = crater_diameter * 10 / (real_of_int distance + 1)
        in Some (distance,
             \<lparr> thickness_m = thickness,
               ejecta_effect =
                 (if thickness > 100 then ''Buried under debris''
                  else if thickness > 10 then ''Severe damage from ejecta''
                  else if thickness > 1 then ''Moderate ejecta damage''
                  else ''Light ejecta fallout'') \<rparr>)
      else None)"

definition ejecta_distances :: "int list" where
  "ejecta_distances = [10, 50, 100, 500]"

definition calculate_ejecta_effects :: "real \<Rightarrow> ejecta_results" where
  "calculate_ejecta_effects crater_diameter =
     (let ejecta_radius = crater_diameter * 2.5
      in \<lparr> ejecta_blanket_radius_km = ejecta_radius,
           ejecta_effects =
             List.map_filter (ejecta_effect_at crater_diameter ejecta_radius) ejecta_distances \<rparr>)"

subsection \<open>\<^verbatim>\<open>models/impact_physics.py\<close>: the pipeline and the summary\<close>

text \<open>The dictionary \<^verbatim>\<open>self.results\<close> after \<^verbatim>\<open>calculate_all\<close>, grouped by stage.\<close>

record impact_results =
  energy :: energy_results
  crater :: crater_results
  seismic :: seismic_results
  blast_effects :: "(int \<times> blast_entry) list"
  thermal_effects :: "(int \<times> thermal_entry) list"
  tsunami :: "tsunami_results option"
  atmospheric :: atmospheric_results
  ejecta :: ejecta_results

text \<open>
  The stages in the order of the source. When the crater values are complex, the next
  stage is the first to compare one of them (\<^verbatim>\<open>distance < crater_radius\<close>), which
  raises \<^verbatim>\<open>TypeError\<close>.
\<close>

definition calculate_all :: "ImpactParameters \<Rightarrow> py_error + impact_results" where
  "calculate_all params =
     (let e = calculate_kinetic_energy params
      in case calculate_crater_dimensions params (effective_megatons e) of
           None \<Rightarrow> Inl TypeError
         | Some c \<Rightarrow>
             bindE (calculate_seismic_effects (effective_energy e) (crater_diameter_km c)) (\<lambda>s.
             bindE (calculate_blast_effects (effective_megatons e)) (\<lambda>b.
             let t = calculate_thermal_effects (effective_megatons e)
             in bindE (if target_type params = ''water''
                       then calculate_tsunami_effects params (effective_megatons e)
                       else Inr None) (\<lambda>ts.
                  Inr \<lparr> energy = e,
                        crater = c,
                        seismic = s,
                        blast_effects = b,
                        thermal_effects = t,
                        tsunami = ts,
                        atmospheric =
                          calculate_atmospheric_effects (effective_megatons e) (crater_volume_km3 c),
                        ejecta = calculate_ejecta_effects (crater_diameter_km c) \<rparr>))))"

definition classify_impact :: "real \<Rightarrow> string" where
  "classify_impact energy_mt =
     (if energy_mt > 10 ^ 8 then ''Extinction Event (K-T level)''
      else if energy_mt > 10 ^ 6 then ''Global Catastrophe''
      else if energy_mt > 10 ^ 4 then ''Continental Disaster''
      else if energy_mt > 1000 then ''Regional Catastrophe''
      else if energy_mt > 100 then ''Major Regional Impact''
      else if energy_mt > 10 then ''Significant Local Impact''
      else if energy_mt > 1 then ''Moderate Local Impact''
      else ''Minor Impact'')"

definition summarize_immediate_effects :: "impact_results \<Rightarrow> fstring list" where
  "summarize_immediate_effects results =
     (let crater_d = crater_diameter_km (crater results)
      in [[Lit ''Crater: '', Fmt1f crater_d, Lit '' km diameter, '',
           Fmt1f (crater_depth_km (crater results)), Lit '' km deep''],
          [Lit ''Seismic: Magnitude '', Fmt1f (seismic_magnitude (seismic results)),
           Lit '' earthquake''],
          [Lit ''Total vaporization within '', Fmt1f (crater_d / 2), Lit '' km'']])"

text \<open>
  The loop that sets the local variable \<^verbatim>\<open>blast_radius\<close>: the last distance whose
  overpressure is at least 5 psi, and \<open>None\<close> (unbound) when there is none.
\<close>

definition find_blast_radius :: "(int \<times> blast_entry) list \<Rightarrow> int option" where
  "find_blast_radius entries =
     fold (\<lambda>item blast_radius.
             if overpressure_psi (snd item) \<ge> 5 then Some (fst item) else blast_radius)
       entries None"

definition summarize_regional_effects :: "impact_results \<Rightarrow> py_error + fstring list" where
  "summarize_regional_effects results =
     (case find_blast_radius (blast_effects results) of
        None \<Rightarrow> Inl UnboundLocalError
      | Some blast_radius \<Rightarrow>
          let effects =
                [[Lit ''Severe blast damage out to ~'', FmtInt blast_radius, Lit '' km''],
                 [Lit ''Thermal burns within ~'', FmtFloat (real_of_int blast_radius / 2),
                  Lit '' km''],
                 [Lit ''Ejecta blanket extends '',
                  Fmt0f (ejecta_blanket_radius_km (ejecta results)), Lit '' km'']]
          in (case tsunami results of
                None \<Rightarrow> Inr effects
              | Some ts \<Rightarrow>
                  (case tsunami_effects ts of
                     [] \<Rightarrow> Inl IndexError
                   | first # _ \<Rightarrow>
                       Inr (effects @
                         [[Lit ''Tsunami waves reach coastlines in '',
                           Fmt1f (arrival_time_hours (snd first)), Lit '' hours'']]))))"

definition summarize_global_effects :: "impact_results \<Rightarrow> fstring list" where
  "summarize_global_effects results =
     (let energy_mt = effective_megatons (energy results)
      in (if climate_disruption_years (atmospheric results) > 0
          then [[Lit ''Climate disruption: '', Lit (cooling_effect (atmospheric results))],
                [Lit ''Duration: '', Fmt1f (climate_disruption_years (atmospheric results)),
                 Lit '' years'']]
          else []) @
         (if energy_mt > 1000
          then [[Lit ''Global agricultural disruption''],
                [Lit ''Potential mass extinction event'']]
          else if energy_mt > 100
          then [[Lit ''Regional agricultural failure''],
                [Lit ''Global economic disruption'']]
          else []))"

record casualties =
  casualties_immediate :: string
  casualties_total :: string
  casualties_note :: string

definition estimate_casualties :: "real \<Rightarrow> casualties" where
  "estimate_casualties energy_mt =
     (if energy_mt > 10 ^ 6 then
        \<lparr> casualties_immediate = ''1+ billion'',
          casualties_total = ''Majority of human population'',
          casualties_note = ''Extinction-level event'' \<rparr>
      else if energy_mt > 10 ^ 4 then
        \<lparr> casualties_immediate = ''100+ million'',
          casualties_total = ''1+ billion'',
          casualties_note = ''Global catastrophe'' \<rparr>
      else if energy_mt > 1000 then
        \<lparr> casualties_immediate = ''1-100 million'',
          casualties_total = ''10-500 million'',
          casualties_note = ''Depends heavily on impact location'' \<rparr>
      else if energy_mt > 100 then
        \<lparr> casualties_immediate = ''100,000 - 10 million'',
          casualties_total = ''1-50 million'',
          casualties_note = ''Major regional disaster'' \<rparr>
      else
        \<lparr> casualties_immediate = ''1,000 - 1 million'',
          casualties_total = ''10,000 - 10 million'',
          casualties_note = ''Significant local impact'' \<rparr>)"

record economic =
  cost_usd :: string
  economic_note :: string

definition estimate_economic_impact :: "real \<Rightarrow> economic" where
  "estimate_economic_impact energy_mt =
     (if energy_mt > 10 ^ 6 then
        \<lparr> cost_usd = ''Incalculable'', economic_note = ''End of civilization'' \<rparr>
      else if energy_mt > 10 ^ 4 then
        \<lparr> cost_usd = ''$100+ trillion'', economic_note = ''Global economic collapse'' \<rparr>
      else if energy_mt > 1000 then
        \<lparr> cost_usd = ''$10-100 trillion'', economic_note = ''Continental devastation'' \<rparr>
      else if energy_mt > 100 then
        \<lparr> cost_usd = ''$1-10 trillion'', economic_note = ''Regional catastrophe'' \<rparr>
      else
        \<lparr> cost_usd = ''$100 billion - $1 trillion'', economic_note = ''Major disaster'' \<rparr>)"

record impact_summary =
  impact_classification :: string
  immediate_effects :: "fstring list"
  regional_effects :: "fstring list"
  global_effects :: "fstring list"
  casualties_estimate :: casualties
  economic_impact :: economic

definition get_summary :: "impact_results \<Rightarrow> py_error + impact_summary" where
  "get_summary results =
     (let energy_mt = effective_megatons (energy results)
      in bindE (summarize_regional_effects results) (\<lambda>regional.
           Inr \<lparr> impact_classification = classify_impact energy_mt,
                 immediate_effects = summarize_immediate_effects results,
                 regional_effects = regional,
                 global_effects = summarize_global_effects results,
                 casualties_estimate = estimate_casualties energy_mt,
                 economic_impact = estimate_economic_impact energy_mt \<rparr>))"

record impact_report =
  parameters :: ImpactParameters
  calculations :: impact_results
  summary :: impact_summary

definition calculate_impact ::
  "real \<Rightarrow> real \<Rightarrow> real \<Rightarrow> real \<Rightarrow> string \<Rightarrow> py_error + impact_report" where
  "calculate_impact diameter' velocity' density' angle' target_type' =
     (let params = \<lparr> diameter = diameter', velocity = velocity', density = density',
                     angle = angle', target_type = target_type' \<rparr>
      in bindE (calculate_all params) (\<lambda>results.
         bindE (get_summary results) (\<lambda>sm.
           Inr \<lparr> parameters = params, calculations = results, summary = sm \<rparr>)))"

subsection \<open>\<^verbatim>\<open>models/mitigation.py\<close>\<close>

text \<open>
  A \<^verbatim>\<open>datetime\<close> is a point of the time line in seconds, so that the difference of
  two of them is what \<^verbatim>\<open>total_seconds()\<close> returns.
\<close>

type_synonym datetime = real

record DeflectionMission =
  strategy :: string
  launch_date :: datetime
  asteroid_diameter :: real
  asteroid_velocity :: real
  asteroid_mass :: real
  warning_time_years :: real
  mission_duration_years :: real

definition KINETIC_IMPACTOR_MASS :: real where
  "KINETIC_IMPACTOR_MASS = 500"

definition KINETIC_IMPACTOR_VELOCITY :: real where
  "KINETIC_IMPACTOR_VELOCITY = 10"

definition GRAVITY_TRACTOR_MASS :: real where
  "GRAVITY_TRACTOR_MASS = 1000"

definition NUCLEAR_YIELD_MT :: real where
  "NUCLEAR_YIELD_MT = 1"

text \<open>The entries \<^verbatim>\<open>calculate_required_deflection\<close> writes into \<^verbatim>\<open>self.results\<close>.\<close>

record mitigation_results =
  required_delta_v_ms :: real
  results_warning_time_years :: real

definition calculate_required_deflection ::
  "DeflectionMission \<Rightarrow> datetime \<Rightarrow> py_error + (real \<times> mitigation_results)" where
  "calculate_required_deflection mission impact_date =
     (let earth_radius = 6371;
          safety_margin = 10 * earth_radius;
          time_until_impact = impact_date - launch_date mission;
          time_years = time_until_impact / (365.25 * 24 * 3600);
          deflection_distance = safety_margin
      in bindE (py_div deflection_distance time_years) (\<lambda>delta_v.
           let delta_v_ms = (delta_v * 1000) / (365.25 * 24 * 3600)
           in Inr (delta_v_ms,
                   \<lparr> required_delta_v_ms = delta_v_ms,
                     results_warning_time_years = time_years \<rparr>)))"

text \<open>The dictionary a strategy model returns; a key a model does not set is \<open>None\<close>.\<close>

record strategy_result =
  delta_v_ms :: real
  deflection_distance_km :: real
  success_probability :: real
  fragmentation_risk :: "real option"
  mission_cost_million_usd :: real
  preparation_time_years :: real
  result_mission_duration_years :: "real option"
  technology_readiness :: string
  advantages :: "string list"
  disadvantages :: "string list"
  recommended_for :: string
  warning :: "string option"

text \<open>The warning sign U+26A0 U+FE0F of two messages, as its UTF-8 bytes.\<close>

definition warning_sign :: string where
  "warning_sign = [CHR 0xE2, CHR 0x9A, CHR 0xA0, CHR 0xEF, CHR 0xB8, CHR 0x8F]"

definition kinetic_impactor_deflection :: "DeflectionMission \<Rightarrow> py_error + strategy_result" where
  "kinetic_impactor_deflection mission =
     (let impactor_mass = KINETIC_IMPACTOR_MASS;
          impactor_velocity = KINETIC_IMPACTOR_VELOCITY * 1000;
          beta = 3.5;
          momentum_change = beta * impactor_mass * impactor_velocity
      in bindE (py_div momentum_change (asteroid_mass mission)) (\<lambda>delta_v.
           let warning_time_seconds = warning_time_years mission * 365.25 * 24 * 3600;
               deflection_distance = delta_v * warning_time_seconds / 1000;
               success_prob =
                 (if asteroid_diameter mission < 100 then 0.95
                  else if asteroid_diameter mission < 300 then 0.85
                  else if asteroid_diameter mission < 500 then 0.70
                  else 0.50);
               mission_cost = 300 + asteroid_diameter mission / 10;
               prep_time = 3 + asteroid_diameter mission / 200
           in Inr \<lparr> delta_v_ms = delta_v,
                    deflection_distance_km = deflection_distance,
                    success_probability = success_prob,
                    fragmentation_risk = None,
                    mission_cost_million_usd = mission_cost,
                    preparation_time_years = prep_time,
                    result_mission_duration_years = None,
                    technology_readiness = ''High (DART proven)'',
                    advantages =
                      [''Proven technology (NASA DART)'', ''Relatively low cost'',
                       ''Fast deployment'', ''No radioactive materials''],
                    disadvantages =
                      [''Single attempt'', ''Less effective on large asteroids'',
                       ''Requires precise targeting'', ''Limited by launch windows''],
                    recommended_for = ''Small to medium asteroids (<500m) with 5+ years warning'',
                    warning = None \<rparr>))"

definition gravity_tractor_deflection :: "DeflectionMission \<Rightarrow> py_error + strategy_result" where
  "gravity_tractor_deflection mission =
     (let G = 6.674 / 10 ^ 11;
          distance = 100;
          spacecraft_mass = GRAVITY_TRACTOR_MASS;
          accel = G * spacecraft_mass / distance ^ 2;
          mission_duration_seconds = mission_duration_years mission * 365.25 * 24 * 3600;
          delta_v = accel * mission_duration_seconds;
          warning_time_seconds = warning_time_years mission * 365.25 * 24 * 3600;
          deflection_distance = delta_v * warning_time_seconds / 1000;
          success_prob =
            (if warning_time_years mission > 10 then 0.90
             else if warning_time_years mission > 5 then 0.75
             else 0.50);
          mission_cost = 1000 + mission_duration_years mission * 200
      in Inr \<lparr> delta_v_ms = delta_v,
               deflection_distance_km = deflection_distance,
               success_probability = success_prob,
               fragmentation_risk = None,
               mission_cost_million_usd = mission_cost,
               preparation_time_years = 5,
               result_mission_duration_years = Some (mission_duration_years mission),
               technology_readiness = ''Medium (requires development)'',
               advantages =
                 [''Precise control'', ''Adjustable in real-time'',
                  ''No physical contact needed'', ''Works on any asteroid type''],
               disadvantages =
                 [''Extremely slow'', ''Very expensive'',
                  ''Requires decades of warning'', ''Complex station-keeping''],
               recommended_for = ''Any size asteroid with 15+ years warning'',
               warning = None \<rparr>)"

definition nuclear_deflection :: "DeflectionMission \<Rightarrow> py_error + strategy_result" where
  "nuclear_deflection mission =
     (let yield_mt = NUCLEAR_YIELD_MT;
          energy_joules = yield_mt * (4.184 * 10 ^ 15);
          efficiency = 0.15
      in bindE (math_sqrt (2 * efficiency * energy_joules * asteroid_mass mission))
           (\<lambda>momentum_transfer.
         bindE (py_div momentum_transfer (asteroid_mass mission)) (\<lambda>delta_v.
           let warning_time_seconds = warning_time_years mission * 365.25 * 24 * 3600;
               deflection_distance = delta_v * warning_time_seconds / 1000;
               success_prob =
                 (if asteroid_diameter mission < 200 then 0.85
                  else if asteroid_diameter mission < 500 then 0.75
                  else 0.65);
               fragmentation =
                 (if asteroid_diameter mission < 200 then 0.60
                  else if asteroid_diameter mission < 500 then 0.30
                  else 0.10);
               mission_cost = 5000
           in Inr \<lparr> delta_v_ms = delta_v,
                    deflection_distance_km = deflection_distance,
                    success_probability = success_prob,
                    fragmentation_risk = Some fragmentation,
                    mission_cost_million_usd = mission_cost,
                    preparation_time_years = 2,
                    result_mission_duration_years = None,
                    technology_readiness = ''High (but untested in space)'',
                    advantages =
                      [''Most powerful option'', ''Effective on large asteroids'',
                       ''Can be deployed quickly'', ''Multiple devices possible''],
                    disadvantages =
                      [''Risk of fragmentation'', ''International treaty concerns'',
                       ''Radioactive contamination'', ''Political challenges''],
                    recommended_for =
                      ''Last resort for large asteroids (>500m) or short warning time'',
                    warning =
                      Some (warning_sign @ '' Risk of creating multiple dangerous fragments'') \<rparr>)))"

definition laser_ablation_deflection :: "DeflectionMission \<Rightarrow> py_error + strategy_result" where
  "laser_ablation_deflection mission =
     (let laser_power = 10;
          efficiency = 0.001;
          mission_duration_seconds = mission_duration_years mission * 365.25 * 24 * 3600;
          mass_ablated = laser_power * efficiency * mission_duration_seconds;
          exhaust_velocity = 1000
      in bindE (py_div (asteroid_mass mission) (asteroid_mass mission - mass_ablated)) (\<lambda>ratio.
         bindE (math_log ratio) (\<lambda>lg.
           let delta_v = exhaust_velocity * lg;
               warning_time_seconds = warning_time_years mission * 365.25 * 24 * 3600;
               deflection_distance = delta_v * warning_time_seconds / 1000;
               success_prob = 0.65;
               mission_cost = 2000 + mission_duration_years mission * 300
           in Inr \<lparr> delta_v_ms = delta_v,
                    deflection_distance_km = deflection_distance,
                    success_probability = success_prob,
                    fragmentation_risk = None,
                    mission_cost_million_usd = mission_cost,
                    preparation_time_years = 8,
                    result_mission_duration_years = Some (mission_duration_years mission),
                    technology_readiness = ''Low (requires significant development)'',
                    advantages =
                      [''Continuous thrust'', ''Precise control'',
                       ''No physical contact'', ''Scalable power''],
                    disadvantages =
                      [''Unproven technology'', ''Requires large power source'',
                       ''Very expensive'', ''Slow deflection''],
                    recommended_for = ''Future missions with 20+ years warning'',
                    warning = None \<rparr>)))"

definition ion_beam_deflection :: "DeflectionMission \<Rightarrow> py_error + strategy_result" where
  "ion_beam_deflection mission =
     (let thrust = 0.5;
          mission_duration_seconds = mission_duration_years mission * 365.25 * 24 * 3600
      in bindE (py_div thrust (asteroid_mass mission)) (\<lambda>accel.
           let delta_v = accel * mission_duration_seconds;
               warning_time_seconds = warning_time_years mission * 365.25 * 24 * 3600;
               deflection_distance = delta_v * warning_time_seconds / 1000;
               success_prob = (if warning_time_years mission > 10 then 0.85 else 0.60);
               mission_cost = 1500 + mission_duration_years mission * 250
           in Inr \<lparr> delta_v_ms = delta_v,
                    deflection_distance_km = deflection_distance,
                    success_probability = success_prob,
                    fragmentation_risk = None,
                    mission_cost_million_usd = mission_cost,
                    preparation_time_years = 6,
                    result_mission_duration_years = Some (mission_duration_years mission),
                    technology_readiness = ''Medium (ion drives proven)'',
                    advantages =
                      [''More efficient than gravity tractor'', ''Proven ion drive technology'',
                       ''Precise control'', ''No contact needed''],
                    disadvantages =
                      [''Slow deflection'', ''Expensive'',
                       ''Long mission duration'', ''Requires decades of warning''],
                    recommended_for = ''Medium asteroids with 10+ years warning'',
                    warning = None \<rparr>))"

text \<open>An entry of the \<^verbatim>\<open>rankings\<close> list.\<close>

record ranking =
  rk_strategy :: string
  score :: real
  is_sufficient :: bool
  effectiveness_ratio :: real
  data :: strategy_result

text \<open>The dictionary of \<^verbatim>\<open>generate_recommendations\<close>; a key a branch does not set is \<open>None\<close>.\<close>

record recommendation =
  status :: string
  message :: string
  options :: "string list option"
  primary_strategy :: "string option"
  backup_strategies :: "string list option"
  timeline :: "string option"
  cost_estimate_million_usd :: "real option"
  rec_notes :: "string option"

definition generate_recommendations ::
  "DeflectionMission \<Rightarrow> ranking list \<Rightarrow> real \<Rightarrow> py_error + recommendation" where
  "generate_recommendations mission rankings required_dv =
     (let sufficient_strategies = filter is_sufficient rankings
      in if sufficient_strategies = [] then
           Inr \<lparr> status = ''INSUFFICIENT'',
                 message =
                   ''No single strategy sufficient. Consider multiple missions or evacuation.'',
                 options =
                   Some [''Launch multiple kinetic impactors'',
                         ''Combine kinetic impactor with gravity tractor'',
                         ''Nuclear option as last resort'',
                         ''Focus on impact zone evacuation and preparation''],
                 primary_strategy = None,
                 backup_strategies = None,
                 timeline = None,
                 cost_estimate_million_usd = None,
                 rec_notes = None \<rparr>
         else
           let best = hd sufficient_strategies
           in if warning_time_years mission < 5 then
                (let message =
                       (if rk_strategy best = ''nuclear''
                        then warning_sign @
                          '' CRITICAL: Nuclear deflection recommended due to short warning time''
                        else ''URGENT: Deploy kinetic impactor mission immediately'')
                 in if length rankings < 3 then Inl IndexError
                    else
                      Inr \<lparr> status = ''URGENT'',
                            message = message,
                            options = None,
                            primary_strategy = Some (rk_strategy best),
                            backup_strategies =
                              Some [rk_strategy (rankings ! 1), rk_strategy (rankings ! 2)],
                            timeline = Some ''Immediate action required'',
                            cost_estimate_million_usd =
                              Some (mission_cost_million_usd (data best)),
                            rec_notes = None \<rparr>)
              else if warning_time_years mission < 15 then
                Inr \<lparr> status = ''ADEQUATE'',
                      message = ''Multiple options available. Kinetic impactor recommended.'',
                      options = None,
                      primary_strategy = Some ''kinetic_impactor'',
                      backup_strategies = Some [''ion_beam'', ''nuclear''],
                      timeline = Some ''Launch within 2-3 years'',
                      cost_estimate_million_usd =
                        Some (mission_cost_million_usd (data (hd rankings))),
                      rec_notes = Some ''Time for careful mission planning and preparation'' \<rparr>
              else
                Inr \<lparr> status = ''OPTIMAL'',
                      message =
                        ''Ample time for precise deflection. Gravity tractor or ion beam recommended.'',
                      options = None,
                      primary_strategy = Some ''gravity_tractor'',
                      backup_strategies = Some [''ion_beam'', ''kinetic_impactor''],
                      timeline = Some ''Launch within 5 years, operate for extended period'',
                      cost_estimate_million_usd =
                        Some (mission_cost_million_usd (data (hd rankings))),
                      rec_notes = Some ''Ideal conditions for controlled, precise deflection'' \<rparr>)"

text \<open>The body of the ranking loop of \<^verbatim>\<open>compare_all_strategies\<close>, for one strategy.\<close>

definition rank_entry :: "real \<Rightarrow> string \<times> strategy_result \<Rightarrow> py_error + ranking" where
  "rank_entry required_dv item =
     (let name = fst item;
          d = snd item;
          dv_ratio = (if required_dv > 0 then delta_v_ms d / required_dv else 0)
      in bindE (py_div 1000 (mission_cost_million_usd d)) (\<lambda>cost_efficiency.
           let score =
                 dv_ratio * 0.3 +
                 success_probability d * 0.3 +
                 cost_efficiency * 0.2 +
                 (1 / max (preparation_time_years d) 1) * 0.2
           in Inr \<lparr> rk_strategy = name,
                    score = score,
                    is_sufficient = (dv_ratio \<ge> 1.0),
                    effectiveness_ratio = dv_ratio,
                    data = d \<rparr>))"

text \<open>
  \<^verbatim>\<open>rankings.sort(key=lambda x: x['score'], reverse=True)\<close>: Python's sort is stable
  also with \<^verbatim>\<open>reverse=True\<close>, that is, entries of equal score keep their order. This
  is the stable insertion sort on the negated score.
\<close>

definition sort_by_score_desc :: "ranking list \<Rightarrow> ranking list" where
  "sort_by_score_desc rs = sort_key (\<lambda>r. - score r) rs"

record comparison =
  required_deflection_ms :: real
  cmp_warning_time_years :: real
  strategies :: "(string \<times> strategy_result) list"
  rankings :: "ranking list"
  recommendations :: recommendation

definition compare_all_strategies :: "DeflectionMission \<Rightarrow> datetime \<Rightarrow> py_error + comparison" where
  "compare_all_strategies mission impact_date =
     bindE (calculate_required_deflection mission impact_date) (\<lambda>req.
     let required_dv = fst req in
     bindE (kinetic_impactor_deflection mission) (\<lambda>k.
     bindE (gravity_tractor_deflection mission) (\<lambda>g.
     bindE (nuclear_deflection mission) (\<lambda>n.
     bindE (laser_ablation_deflection mission) (\<lambda>l.
     bindE (ion_beam_deflection mission) (\<lambda>i.
     let strategies =
           [(''kinetic_impactor'', k), (''gravity_tractor'', g), (''nuclear'', n),
            (''laser_ablation'', l), (''ion_beam'', i)]
     in bindE (mapE (rank_entry required_dv) strategies) (\<lambda>unsorted.
        let rankings = sort_by_score_desc unsorted
        in bindE (generate_recommendations mission rankings required_dv) (\<lambda>recs.
           Inr \<lparr> required_deflection_ms = required_dv,
                 cmp_warning_time_years = warning_time_years mission,
                 strategies = strategies,
                 rankings = rankings,
                 recommendations = recs \<rparr>))))))))"

text \<open>
  \<^verbatim>\<open>simulate_deflection_scenario\<close>: the mass of a sphere of density 3000, the launch
  date \<^verbatim>\<open>warning_years * 365.25\<close> days before the impact date.
\<close>

definition simulate_deflection_scenario ::
  "real \<Rightarrow> real \<Rightarrow> real \<Rightarrow> datetime \<Rightarrow> string \<Rightarrow> real \<Rightarrow> py_error + comparison" where
  "simulate_deflection_scenario diameter' velocity' warning_years impact_date
       strategy' duration_years =
     (let radius = diameter' / 2;
          volume = (4 / 3) * pi * radius ^ 3;
          density' = 3000;
          mass' = volume * density';
          launch_date' = impact_date - (warning_years * 365.25) * 86400;
          mission = \<lparr> strategy = strategy',
                      launch_date = launch_date',
                      asteroid_diameter = diameter',
                      asteroid_velocity = velocity',
                      asteroid_mass = mass',
                      warning_time_years = warning_years,
                      mission_duration_years = duration_years \<rparr>
      in compare_all_strategies mission impact_date)"

subsection \<open>Names used in the statements\<close>



definition mission_20km :: DeflectionMission where
  "mission_20km =
     \<lparr> strategy = ''kinetic_impactor'', launch_date = 0, asteroid_diameter = 20000,
       asteroid_velocity = 20, asteroid_mass = (4 / 3) * pi * (20000 / 2) ^ 3 * 3000,
       warning_time_years = 4, mission_duration_years = 3000 \<rparr>"




section \<open>Properties\<close>

subsection \<open>Energy conversion\<close>

lemma calculate_kinetic_energy_joules:
  "kinetic_energy_joules_r (calculate_kinetic_energy p) =
     250 * pi * diameter p ^ 3 * density p * velocity p ^ 2 / 3 * 1000"
  by (simp add: calculate_kinetic_energy_def Let_def power3_eq_cube power2_eq_square)

text \<open>
  Claim C1. The helper \<open>tnt_equivalent\<close> divides joules by \<open>4.184e15\<close>, but the
  Impact Consequence Calculator divides by its own constant \<open>4.184e12\<close>: for the
  impactor of diameter 100 m, velocity 20 km/s, density 3000 and angle 90 degrees
  the fields \<open>kinetic_energy_megatons\<close> and \<open>effective_megatons\<close> are 1000 times the
  joule energies divided by \<open>4.184e15\<close>, and so differ from them.
\<close>

theorem C1_megatons_off_by_1000:
  "tnt_equivalent E = E / (4.184 * 10 ^ 15) \<and>
   (let p = \<lparr> diameter = 100, velocity = 20, density = 3000, angle = 90, target_type = ''land'' \<rparr>;
        r = calculate_kinetic_energy p
    in kinetic_energy_megatons r = 1000 * (kinetic_energy_joules_r r / (4.184 * 10 ^ 15)) \<and>
       effective_megatons r = 1000 * (effective_energy r / (4.184 * 10 ^ 15)) \<and>
       kinetic_energy_megatons r \<noteq> kinetic_energy_joules_r r / (4.184 * 10 ^ 15) \<and>
       effective_megatons r \<noteq> effective_energy r / (4.184 * 10 ^ 15))"
  by (simp add: tnt_equivalent_def calculate_kinetic_energy_def TNT_EQUIVALENT_def
      math_radians_def Let_def)

subsection \<open>Construction of an \<^verbatim>\<open>Asteroid\<close>\<close>

text \<open>
  Claim C10. An \<^verbatim>\<open>Asteroid\<close> constructed with impact angle 0 (or with no angle) has
  angle 45: no constructed object has angle 0, and every derived energy of the object
  built with angle 0 is the one of the object built with angle 45.
\<close>

theorem C10_angle_zero_becomes_45:
  "ast_angle (Asteroid_init d v rho (Some 0) t) = 45 \<and>
   ast_angle (Asteroid_init d v rho None t) = 45 \<and>
   ast_angle (Asteroid_init d v rho a t) \<noteq> 0 \<and>
   Asteroid_init d v rho (Some 0) t = Asteroid_init d v rho (Some 45) t \<and>
   Asteroid_kinetic_energy (Asteroid_init d v rho (Some 0) t) =
     Asteroid_kinetic_energy (Asteroid_init d v rho (Some 45) t) \<and>
   Asteroid_impact_energy (Asteroid_init d v rho (Some 0) t) =
     Asteroid_impact_energy (Asteroid_init d v rho (Some 45) t) \<and>
   Asteroid_tnt_equivalent (Asteroid_init d v rho (Some 0) t) =
     Asteroid_tnt_equivalent (Asteroid_init d v rho (Some 45) t)"
  by (simp add: Asteroid_init_def py_or_def split: option.split)


subsection \<open>Results of the error monad, ranking and sorting\<close>

lemma bindE_Inr_iff: "bindE m f = Inr y \<longleftrightarrow> (\<exists>x. m = Inr x \<and> f x = Inr y)"
  by (cases m) (simp_all add: bindE_def)

lemma bindE_Inr [simp]: "bindE (Inr x) f = f x"
  by (simp add: bindE_def)

lemma bindE_Inl [simp]: "bindE (Inl e) f = Inl e"
  by (simp add: bindE_def)

lemma rank_entry_Inr:
  "rank_entry rq (nm, d) = Inr r \<Longrightarrow>
     rk_strategy r = nm \<and> data r = d \<and>
     effectiveness_ratio r = (if rq > 0 then delta_v_ms d / rq else 0) \<and>
     is_sufficient r = (effectiveness_ratio r \<ge> 1) \<and>
     score r = effectiveness_ratio r * 0.3 + success_probability d * 0.3 +
       (1000 / mission_cost_million_usd d) * 0.2 + (1 / max (preparation_time_years d) 1) * 0.2"
  by (auto simp: rank_entry_def Let_def bindE_Inr_iff py_div_def split: if_splits)

lemma mapE_Inr_length: "mapE f xs = Inr ys \<Longrightarrow> length ys = length xs"
  by (induction xs arbitrary: ys) (auto simp: bindE_Inr_iff)

lemma mapE_Inr_nth: "mapE f xs = Inr ys \<Longrightarrow> i < length xs \<Longrightarrow> f (xs ! i) = Inr (ys ! i)"
proof (induction xs arbitrary: ys i)
  case Nil then show ?case by simp
next
  case (Cons x xs)
  then show ?case by (cases i) (auto simp: bindE_Inr_iff)
qed


lemma compare_all_strategies_structure:
  assumes "compare_all_strategies m d = Inr c"
  shows "\<exists>req k g n l i unsorted.
           calculate_required_deflection m d = Inr req \<and>
           kinetic_impactor_deflection m = Inr k \<and>
           gravity_tractor_deflection m = Inr g \<and>
           nuclear_deflection m = Inr n \<and>
           laser_ablation_deflection m = Inr l \<and>
           ion_beam_deflection m = Inr i \<and>
           strategies c = [(''kinetic_impactor'', k), (''gravity_tractor'', g), (''nuclear'', n),
              (''laser_ablation'', l), (''ion_beam'', i)] \<and>
           mapE (rank_entry (fst req)) (strategies c) = Inr unsorted \<and>
           rankings c = sort_by_score_desc unsorted \<and>
           required_deflection_ms c = fst req \<and>
           generate_recommendations m (rankings c) (fst req) = Inr (recommendations c)"
  using assms unfolding compare_all_strategies_def Let_def bindE_Inr_iff
  by fastforce





lemma sort_by_score_desc_set: "set (sort_by_score_desc rs) = set rs"
  by (simp add: sort_by_score_desc_def)



subsection \<open>When the strategy models and the comparison return\<close>

lemma calculate_required_deflection_Inr:
  "d \<noteq> launch_date m \<Longrightarrow>
   \<exists>res. calculate_required_deflection m d =
     Inr (63710 / ((d - launch_date m) / 31557600) * 1000 / 31557600, res)"
  by (simp add: calculate_required_deflection_def py_div_def Let_def field_simps)

lemma kinetic_impactor_deflection_Inr:
  "asteroid_mass m \<noteq> 0 \<Longrightarrow>
   \<exists>r. kinetic_impactor_deflection m = Inr r \<and>
       delta_v_ms r = 17500000 / asteroid_mass m \<and>
       mission_cost_million_usd r = 300 + asteroid_diameter m / 10"
  by (simp add: kinetic_impactor_deflection_def py_div_def Let_def
      KINETIC_IMPACTOR_MASS_def KINETIC_IMPACTOR_VELOCITY_def)

lemma gravity_tractor_deflection_Inr:
  "\<exists>r. gravity_tractor_deflection m = Inr r \<and>
       delta_v_ms r = 6.674 / 10 ^ 12 * (mission_duration_years m * 31557600) \<and>
       mission_cost_million_usd r = 1000 + mission_duration_years m * 200"
  by (simp add: gravity_tractor_deflection_def Let_def GRAVITY_TRACTOR_MASS_def)

lemma nuclear_deflection_Inr:
  "0 < asteroid_mass m \<Longrightarrow>
   \<exists>r. nuclear_deflection m = Inr r \<and>
       delta_v_ms r = sqrt (1255200000000000 * asteroid_mass m) / asteroid_mass m \<and>
       mission_cost_million_usd r = 5000"
  by (simp add: nuclear_deflection_def math_sqrt_def py_div_def Let_def NUCLEAR_YIELD_MT_def)

lemma laser_ablation_deflection_Inr:
  "mission_duration_years m * 315576 < asteroid_mass m \<Longrightarrow> 0 < asteroid_mass m \<Longrightarrow>
   \<exists>r. laser_ablation_deflection m = Inr r \<and>
       delta_v_ms r = 1000 * ln (asteroid_mass m / (asteroid_mass m - mission_duration_years m * 315576)) \<and>
       mission_cost_million_usd r = 2000 + mission_duration_years m * 300"
  by (simp add: laser_ablation_deflection_def math_log_def py_div_def Let_def
      not_le zero_less_divide_iff mult.commute)

lemma ion_beam_deflection_Inr:
  "asteroid_mass m \<noteq> 0 \<Longrightarrow>
   \<exists>r. ion_beam_deflection m = Inr r \<and>
       delta_v_ms r = 0.5 / asteroid_mass m * (mission_duration_years m * 31557600) \<and>
       mission_cost_million_usd r = 1500 + mission_duration_years m * 250"
  by (simp add: ion_beam_deflection_def py_div_def Let_def)

lemma rank_entry_succeeds:
  "mission_cost_million_usd r \<noteq> 0 \<Longrightarrow> \<exists>e. rank_entry rq (nm, r) = Inr e"
  by (simp add: rank_entry_def py_div_def Let_def)

lemma generate_recommendations_succeeds:
  "3 \<le> length rs \<Longrightarrow> \<exists>rc. generate_recommendations m rs rq = Inr rc"
  by (simp add: generate_recommendations_def Let_def)

lemma compare_all_strategies_succeeds:
  assumes "d \<noteq> launch_date m" and "0 < asteroid_mass m"
    and "0 \<le> mission_duration_years m"
    and "mission_duration_years m * 315576 < asteroid_mass m"
    and "0 \<le> asteroid_diameter m"
  shows "\<exists>c. compare_all_strategies m d = Inr c"
proof -
  obtain rq res where rq: "calculate_required_deflection m d = Inr (rq, res)"
    using calculate_required_deflection_Inr [OF assms(1)] by blast
  obtain k where k: "kinetic_impactor_deflection m = Inr k" "mission_cost_million_usd k \<noteq> 0"
    using kinetic_impactor_deflection_Inr [of m] assms by force
  obtain g where g: "gravity_tractor_deflection m = Inr g" "mission_cost_million_usd g \<noteq> 0"
    using gravity_tractor_deflection_Inr [of m] assms by force
  obtain n where n: "nuclear_deflection m = Inr n" "mission_cost_million_usd n \<noteq> 0"
    using nuclear_deflection_Inr [of m] assms by force
  obtain l where l: "laser_ablation_deflection m = Inr l" "mission_cost_million_usd l \<noteq> 0"
    using laser_ablation_deflection_Inr [of m] assms by force
  obtain i where i: "ion_beam_deflection m = Inr i" "mission_cost_million_usd i \<noteq> 0"
    using ion_beam_deflection_Inr [of m] assms by force
  obtain ek eg en el ei where e:
    "rank_entry rq (''kinetic_impactor'', k) = Inr ek"
    "rank_entry rq (''gravity_tractor'', g) = Inr eg"
    "rank_entry rq (''nuclear'', n) = Inr en"
    "rank_entry rq (''laser_ablation'', l) = Inr el"
    "rank_entry rq (''ion_beam'', i) = Inr ei"
    using rank_entry_succeeds k(2) g(2) n(2) l(2) i(2) by metis
  have len: "3 \<le> length (sort_by_score_desc [ek, eg, en, el, ei])"
    by (simp add: sort_by_score_desc_def)
  obtain rc where rc:
    "generate_recommendations m (sort_by_score_desc [ek, eg, en, el, ei]) rq = Inr rc"
    using generate_recommendations_succeeds [OF len] by blast
  show ?thesis
    by (simp add: compare_all_strategies_def rq k g n l i e rc Let_def)
qed

subsection \<open>Required deflection\<close>

text \<open>
  Claim C4, amended. The required-deflection computation makes no schedule check: for
  every time to impact other than zero, negative ones included, it returns
  \<open>(63710 / years) / seconds_per_year * 1000\<close> and records it with \<open>years\<close>.
\<close>

theorem C4_required_deflection_no_schedule_check:
  assumes "impact_date \<noteq> launch_date m"
  shows "let years = (impact_date - launch_date m) / (365.25 * 24 * 3600);
             dv = (63710 / years) / (365.25 * 24 * 3600) * 1000
         in calculate_required_deflection m impact_date =
              Inr (dv, \<lparr> required_delta_v_ms = dv, results_warning_time_years = years \<rparr>)"
  using assms by (simp add: calculate_required_deflection_def py_div_def Let_def field_simps)

text \<open>Ten years between launch and impact.\<close>

theorem C4_witness:
  "calculate_required_deflection
     \<lparr> strategy = ''kinetic_impactor'', launch_date = 0, asteroid_diameter = 450,
       asteroid_velocity = 18.5, asteroid_mass = 1, warning_time_years = 10,
       mission_duration_years = 0 \<rparr> 315576000 =
   Inr (63710 / 10 / 31557600 * 1000,
        \<lparr> required_delta_v_ms = 63710 / 10 / 31557600 * 1000, results_warning_time_years = 10 \<rparr>)"
  using C4_required_deflection_no_schedule_check
    [of 315576000 "\<lparr> strategy = ''kinetic_impactor'', launch_date = 0, asteroid_diameter = 450,
       asteroid_velocity = 18.5, asteroid_mass = 1, warning_time_years = 10,
       mission_duration_years = 0 \<rparr>"]
  by (simp add: Let_def)

text \<open>
  Claim C4 as stated fails: with the impact date one year before the launch date
  nothing is rejected, and the result is a negative delta-v.
\<close>

theorem C4_counterexample:
  "calculate_required_deflection
     \<lparr> strategy = ''kinetic_impactor'', launch_date = 31557600, asteroid_diameter = 450,
       asteroid_velocity = 18.5, asteroid_mass = 1, warning_time_years = 10,
       mission_duration_years = 0 \<rparr> 0 =
   Inr (- (63710000 / 31557600),
        \<lparr> required_delta_v_ms = - (63710000 / 31557600), results_warning_time_years = - 1 \<rparr>)"
  by (simp add: calculate_required_deflection_def py_div_def Let_def)

subsection \<open>The kinetic impactor for a 450 m asteroid\<close>

text \<open>
  Claim C9. For the mission that \<open>simulate_deflection_scenario\<close> builds for diameter
  450 m, velocity 18.5 km/s and 10 years of warning, the kinetic-impactor model returns
  success probability 0.70 and mission cost 300 + 450/10 = 345, for every impact
  date and mission duration.
\<close>

theorem C9_kinetic_impactor_450m:
  "\<exists>r. kinetic_impactor_deflection
        \<lparr> strategy = ''kinetic_impactor'', launch_date = impact_date - (10 * 365.25) * 86400,
          asteroid_diameter = 450, asteroid_velocity = 18.5,
          asteroid_mass = (4 / 3) * pi * (450 / 2) ^ 3 * 3000,
          warning_time_years = 10, mission_duration_years = duration \<rparr> = Inr r \<and>
       success_probability r = 0.70 \<and>
       mission_cost_million_usd r = 300 + 450 / 10 \<and>
       mission_cost_million_usd r = 345"
  by (simp add: kinetic_impactor_deflection_def py_div_def Let_def
      KINETIC_IMPACTOR_MASS_def KINETIC_IMPACTOR_VELOCITY_def)

subsection \<open>Recommendation policy\<close>

lemma compare_rankings_sufficient:
  assumes "compare_all_strategies m d = Inr c" and "r \<in> set (rankings c)"
  shows "is_sufficient r = (effectiveness_ratio r \<ge> 1)"
proof -
  from compare_all_strategies_structure [OF assms(1)] obtain req :: "real \<times> mitigation_results" and unsorted where
    un: "mapE (rank_entry (fst req)) (strategies c) = Inr unsorted" and
    rk: "rankings c = sort_by_score_desc unsorted"
    by auto
  from assms(2) have "r \<in> set unsorted" by (simp add: rk sort_by_score_desc_set)
  then obtain j where j: "j < length unsorted" "unsorted ! j = r"
    by (auto simp: in_set_conv_nth)
  then have "rank_entry (fst req) (strategies c ! j) = Inr r"
    using mapE_Inr_nth [OF un, of j] mapE_Inr_length [OF un] by simp
  then show ?thesis
    using rank_entry_Inr [of "fst req" "fst (strategies c ! j)" "snd (strategies c ! j)" r]
    by simp
qed

lemma generate_recommendations_Inr:
  assumes "generate_recommendations m rk rq = Inr rc"
  shows "let w = warning_time_years m; suff = filter is_sufficient rk
         in (status rc = ''INSUFFICIENT'' \<longleftrightarrow> suff = []) \<and>
            (suff \<noteq> [] \<and> w < 5 \<longrightarrow>
               status rc = ''URGENT'' \<and>
               message rc =
                 (if rk_strategy (hd suff) = ''nuclear''
                  then warning_sign @
                    '' CRITICAL: Nuclear deflection recommended due to short warning time''
                  else ''URGENT: Deploy kinetic impactor mission immediately'') \<and>
               primary_strategy rc = Some (rk_strategy (hd suff)) \<and>
               backup_strategies rc = Some [rk_strategy (rk ! 1), rk_strategy (rk ! 2)]) \<and>
            (suff \<noteq> [] \<and> 5 \<le> w \<and> w < 15 \<longrightarrow>
               status rc = ''ADEQUATE'' \<and>
               primary_strategy rc = Some ''kinetic_impactor'' \<and>
               backup_strategies rc = Some [''ion_beam'', ''nuclear'']) \<and>
            (suff \<noteq> [] \<and> 15 \<le> w \<longrightarrow>
               status rc = ''OPTIMAL'' \<and>
               primary_strategy rc = Some ''gravity_tractor'' \<and>
               backup_strategies rc = Some [''ion_beam'', ''kinetic_impactor''])"
  using assms unfolding generate_recommendations_def Let_def
  by (auto split: if_splits)

subsection \<open>Two concrete comparisons\<close>

lemma compare_all_strategies_entries:
  assumes "compare_all_strategies m d = Inr c"
  shows "\<exists>req k g n l i ek eg en el ei.
           calculate_required_deflection m d = Inr req \<and>
           kinetic_impactor_deflection m = Inr k \<and>
           gravity_tractor_deflection m = Inr g \<and>
           nuclear_deflection m = Inr n \<and>
           laser_ablation_deflection m = Inr l \<and>
           ion_beam_deflection m = Inr i \<and>
           rank_entry (fst req) (''kinetic_impactor'', k) = Inr ek \<and>
           rank_entry (fst req) (''gravity_tractor'', g) = Inr eg \<and>
           rank_entry (fst req) (''nuclear'', n) = Inr en \<and>
           rank_entry (fst req) (''laser_ablation'', l) = Inr el \<and>
           rank_entry (fst req) (''ion_beam'', i) = Inr ei \<and>
           rankings c = sort_by_score_desc [ek, eg, en, el, ei] \<and>
           generate_recommendations m (rankings c) (fst req) = Inr (recommendations c)"
  using assms unfolding compare_all_strategies_def Let_def bindE_Inr_iff mapE.simps
  by fastforce




lemma compare_all_strategies_ratios:
  assumes c: "compare_all_strategies m d = Inr c"
    and t: "launch_date m < d" and mass: "0 < asteroid_mass m"
    and abl: "mission_duration_years m * 315576 < asteroid_mass m"
  defines "rq \<equiv> 63710 / ((d - launch_date m) / 31557600) * 1000 / 31557600"
  shows "\<exists>ek eg en el ei.
           rankings c = sort_by_score_desc [ek, eg, en, el, ei] \<and>
           rk_strategy ek = ''kinetic_impactor'' \<and>
           rk_strategy eg = ''gravity_tractor'' \<and>
           rk_strategy en = ''nuclear'' \<and>
           rk_strategy el = ''laser_ablation'' \<and>
           rk_strategy ei = ''ion_beam'' \<and>
           effectiveness_ratio ek = 17500000 / asteroid_mass m / rq \<and>
           effectiveness_ratio eg =
             6.674 / 10 ^ 12 * (mission_duration_years m * 31557600) / rq \<and>
           effectiveness_ratio en =
             sqrt (1255200000000000 * asteroid_mass m) / asteroid_mass m / rq \<and>
           effectiveness_ratio el =
             1000 * ln (asteroid_mass m / (asteroid_mass m - mission_duration_years m * 315576)) / rq \<and>
           effectiveness_ratio ei =
             0.5 / asteroid_mass m * (mission_duration_years m * 31557600) / rq"
proof -
  have rq_pos: "0 < rq" using t by (simp add: rq_def)
  from compare_all_strategies_entries [OF c] obtain req k g n l i ek eg en el ei where
    s: "calculate_required_deflection m d = Inr req"
       "kinetic_impactor_deflection m = Inr k"
       "gravity_tractor_deflection m = Inr g"
       "nuclear_deflection m = Inr n"
       "laser_ablation_deflection m = Inr l"
       "ion_beam_deflection m = Inr i" and
    e: "rank_entry (fst req) (''kinetic_impactor'', k) = Inr ek"
       "rank_entry (fst req) (''gravity_tractor'', g) = Inr eg"
       "rank_entry (fst req) (''nuclear'', n) = Inr en"
       "rank_entry (fst req) (''laser_ablation'', l) = Inr el"
       "rank_entry (fst req) (''ion_beam'', i) = Inr ei" and
    rk: "rankings c = sort_by_score_desc [ek, eg, en, el, ei]"
    by blast
  have req: "fst req = rq"
    using calculate_required_deflection_Inr [of d m] t s(1) by (auto simp: rq_def)
  have dk: "delta_v_ms k = 17500000 / asteroid_mass m"
    using kinetic_impactor_deflection_Inr [of m] mass s(2) by auto
  have dg: "delta_v_ms g = 6.674 / 10 ^ 12 * (mission_duration_years m * 31557600)"
    using gravity_tractor_deflection_Inr [of m] s(3) by auto
  have dn: "delta_v_ms n = sqrt (1255200000000000 * asteroid_mass m) / asteroid_mass m"
    using nuclear_deflection_Inr [of m] mass s(4) by auto
  have dl: "delta_v_ms l =
      1000 * ln (asteroid_mass m / (asteroid_mass m - mission_duration_years m * 315576))"
    using laser_ablation_deflection_Inr [of m] mass abl s(5) by auto
  have di: "delta_v_ms i = 0.5 / asteroid_mass m * (mission_duration_years m * 31557600)"
    using ion_beam_deflection_Inr [of m] mass s(6) by auto
  note r = rank_entry_Inr [OF e(1)] rank_entry_Inr [OF e(2)] rank_entry_Inr [OF e(3)]
    rank_entry_Inr [OF e(4)] rank_entry_Inr [OF e(5)]
  show ?thesis
    apply (rule exI [of _ ek], rule exI [of _ eg], rule exI [of _ en],
        rule exI [of _ el], rule exI [of _ ei])
    using r rq_pos by (simp add: rk req dk dg dn dl di)
qed

lemma nuclear_ratio_less_1:
  assumes "0 < (m::real)" "0 < rq" "1255200000000000 < rq ^ 2 * m"
  shows "sqrt (1255200000000000 * m) / m / rq < 1"
proof -
  have "1255200000000000 * m < (rq ^ 2 * m) * m" using assms by (intro mult_strict_right_mono) simp_all
  also have "\<dots> = (rq * m) ^ 2" by (simp add: power2_eq_square)
  finally have "sqrt (1255200000000000 * m) < rq * m"
    using assms by (intro real_less_lsqrt) simp_all
  then show ?thesis using assms by (simp add: field_simps)
qed

lemma compare_recommendations:
  assumes "compare_all_strategies m d = Inr c"
  shows "\<exists>rq. generate_recommendations m (rankings c) rq = Inr (recommendations c)"
  using compare_all_strategies_structure [OF assms] by auto

lemma simulate_20km:
  "simulate_deflection_scenario 20000 20 4 126230400 ''kinetic_impactor'' 3000 =
     compare_all_strategies mission_20km 126230400"
  by (simp add: simulate_deflection_scenario_def mission_20km_def Let_def)

lemma mission_20km_mass: "8000000000000000 \<le> asteroid_mass mission_20km"
  using pi_ge_two by (simp add: mission_20km_def)

lemma mission_20km_succeeds: "\<exists>c. compare_all_strategies mission_20km 126230400 = Inr c"
proof (rule compare_all_strategies_succeeds)
  show "126230400 \<noteq> launch_date mission_20km" by (simp add: mission_20km_def)
  show "0 < asteroid_mass mission_20km" using mission_20km_mass by linarith
  show "0 \<le> mission_duration_years mission_20km" by (simp add: mission_20km_def)
  show "mission_duration_years mission_20km * 315576 < asteroid_mass mission_20km"
    using mission_20km_mass by (simp add: mission_20km_def)
  show "0 \<le> asteroid_diameter mission_20km" by (simp add: mission_20km_def)
qed

lemma laser_ratio_small:
  assumes "0 < a" "2 * a \<le> (m::real)" "0 < rq" "2000 * a < rq * m"
  shows "1000 * ln (m / (m - a)) / rq < 1"
proof -
  have pos: "0 < m - a" "0 < m" using assms by linarith+
  have "ln (m / (m - a)) \<le> m / (m - a) - 1"
    using pos by (intro ln_le_minus_one) simp
  also have "\<dots> = a / (m - a)" using pos by (simp add: field_simps)
  also have "\<dots> \<le> a / (m / 2)" using assms pos by (intro divide_left_mono) simp_all
  finally have "1000 * ln (m / (m - a)) \<le> 2000 * a / m" by simp
  also have "\<dots> < rq" using assms pos by (simp add: field_simps)
  finally show ?thesis using assms by simp
qed

text \<open>
  Claim C6. For a 20 km asteroid, 4 years of warning and a mission duration of 3000
  years the comparison returns with the gravity tractor as the only sufficient strategy.
  The status is URGENT and the message tells to deploy the kinetic impactor, as the
  claim has it for a top sufficient strategy other than nuclear, but the primary strategy
  is gravity_tractor.
\<close>

theorem C6_urgent_primary_differs_from_message:
  "\<not> isl (simulate_deflection_scenario 20000 20 4 126230400 ''kinetic_impactor'' 3000) \<and>
   map rk_strategy (filter is_sufficient (rankings
     (projr (simulate_deflection_scenario 20000 20 4 126230400 ''kinetic_impactor'' 3000)))) =
     [''gravity_tractor''] \<and>
   status (recommendations
     (projr (simulate_deflection_scenario 20000 20 4 126230400 ''kinetic_impactor'' 3000))) =
     ''URGENT'' \<and>
   message (recommendations
     (projr (simulate_deflection_scenario 20000 20 4 126230400 ''kinetic_impactor'' 3000))) =
     ''URGENT: Deploy kinetic impactor mission immediately'' \<and>
   primary_strategy (recommendations
     (projr (simulate_deflection_scenario 20000 20 4 126230400 ''kinetic_impactor'' 3000))) =
     Some ''gravity_tractor''"
proof -
  obtain c where c: "compare_all_strategies mission_20km 126230400 = Inr c"
    using mission_20km_succeeds by blast
  have m: "0 < asteroid_mass mission_20km" using mission_20km_mass by linarith
  have t: "launch_date mission_20km < 126230400" by (simp add: mission_20km_def)
  have abl: "mission_duration_years mission_20km * 315576 < asteroid_mass mission_20km"
    using mission_20km_mass by (simp add: mission_20km_def)
  define rq :: real where "rq = 63710 / ((126230400 - launch_date mission_20km) / 31557600) * 1000 / 31557600"
  have rq: "rq = 63710000 / 126230400" by (simp add: rq_def mission_20km_def)
  have rq_pos: "0 < rq" by (simp add: rq)
  from compare_all_strategies_ratios [OF c t m abl, folded rq_def] obtain ek eg en el ei where
    rk: "rankings c = sort_by_score_desc [ek, eg, en, el, ei]" and
    nm: "rk_strategy eg = ''gravity_tractor''" and
    ek: "effectiveness_ratio ek = 17500000 / asteroid_mass mission_20km / rq" and
    eg: "effectiveness_ratio eg =
           6.674 / 10 ^ 12 * (mission_duration_years mission_20km * 31557600) / rq" and
    en: "effectiveness_ratio en =
           sqrt (1255200000000000 * asteroid_mass mission_20km) / asteroid_mass mission_20km / rq" and
    el: "effectiveness_ratio el =
           1000 * ln (asteroid_mass mission_20km /
             (asteroid_mass mission_20km - mission_duration_years mission_20km * 315576)) / rq" and
    ei: "effectiveness_ratio ei =
           0.5 / asteroid_mass mission_20km * (mission_duration_years mission_20km * 31557600) / rq"
    by blast
  have k1: "\<not> 1 \<le> effectiveness_ratio ek"
  proof -
    have "17500000 < rq * asteroid_mass mission_20km"
      using mission_20km_mass by (simp add: rq)
    then show ?thesis using m rq_pos by (simp add: ek field_simps)
  qed
  have g1: "1 \<le> effectiveness_ratio eg"
    by (simp add: eg rq mission_20km_def)
  have n1: "\<not> 1 \<le> effectiveness_ratio en"
  proof -
    have "1255200000000000 < rq ^ 2 * asteroid_mass mission_20km"
      using mission_20km_mass by (simp add: rq power2_eq_square)
    from nuclear_ratio_less_1 [OF m rq_pos this] show ?thesis by (simp add: en)
  qed
  have l1: "\<not> 1 \<le> effectiveness_ratio el"
  proof -
    have "1000 * ln (asteroid_mass mission_20km /
             (asteroid_mass mission_20km - mission_duration_years mission_20km * 315576)) / rq < 1"
      using mission_20km_mass by (intro laser_ratio_small) (simp_all add: rq mission_20km_def)
    then show ?thesis by (simp add: el)
  qed
  have i1: "\<not> 1 \<le> effectiveness_ratio ei"
  proof -
    have "0.5 * (mission_duration_years mission_20km * 31557600) < rq * asteroid_mass mission_20km"
      using mission_20km_mass by (simp add: rq mission_20km_def)
    then show ?thesis using m rq_pos by (simp add: ei field_simps)
  qed
  have only: "filter (\<lambda>r. effectiveness_ratio r \<ge> 1) [ek, eg, en, el, ei] = [eg]"
    by (simp add: k1 g1 n1 l1 i1)
  have "filter (\<lambda>r. effectiveness_ratio r \<ge> 1) (rankings c) =
        sort_key (\<lambda>r. - score r) (filter (\<lambda>r. effectiveness_ratio r \<ge> 1) [ek, eg, en, el, ei])"
    by (simp only: rk sort_by_score_desc_def filter_sort)
  then have suff: "filter (\<lambda>r. effectiveness_ratio r \<ge> 1) (rankings c) = [eg]"
    by (simp only: only sort_key_simps insort_key.simps)
  from compare_recommendations [OF c] obtain rq' where
    gen: "generate_recommendations mission_20km (rankings c) rq' = Inr (recommendations c)"
    by blast
  have is_suff: "filter is_sufficient (rankings c) =
              filter (\<lambda>r. effectiveness_ratio r \<ge> 1) (rankings c)"
    by (rule filter_cong [OF refl]) (simp add: compare_rankings_sufficient [OF c])
  have w: "warning_time_years mission_20km = 4" by (simp add: mission_20km_def)
  have "status (recommendations c) = ''URGENT'' \<and>
        message (recommendations c) = ''URGENT: Deploy kinetic impactor mission immediately'' \<and>
        primary_strategy (recommendations c) = Some ''gravity_tractor''"
    using generate_recommendations_Inr [OF gen] by (simp add: Let_def is_suff suff w nm)
  moreover have "map rk_strategy (filter is_sufficient (rankings c)) = [''gravity_tractor'']"
    by (simp add: is_suff suff nm)
  ultimately show ?thesis by (simp add: simulate_20km c)
qed


subsection \<open>Impact evaluation: zero and negative energy\<close>

lemma calculate_crater_dimensions_Some:
  "0 \<le> e \<Longrightarrow>
   \<exists>c. calculate_crater_dimensions p e = Some c \<and>
       crater_diameter_km c = (if target_type p = ''land'' then 1.8 else 2.2) * e powr 0.28 \<and>
       crater_volume_km3 c = (pi / 4) * crater_diameter_km c ^ 2 * (crater_diameter_km c / 5)"
  by (simp add: calculate_crater_dimensions_def py_pow_def Let_def)

lemma calculate_crater_dimensions_None:
  "e < 0 \<Longrightarrow> calculate_crater_dimensions p e = None"
  by (simp add: calculate_crater_dimensions_def py_pow_def Let_def)

lemma seismic_intensity_zero_radius:
  "0 \<le> d \<Longrightarrow> seismic_intensity M 0 d = Inl ZeroDivisionError"
  by (simp add: seismic_intensity_def py_div_def)

lemma calculate_seismic_effects_zero:
  "calculate_seismic_effects E 0 = Inl ZeroDivisionError"
  by (simp add: calculate_seismic_effects_def seismic_distances_def Let_def
      seismic_intensity_zero_radius)

lemma calculate_all_zero_energy:
  assumes "effective_megatons (calculate_kinetic_energy p) = 0"
  shows "calculate_all p = Inl ZeroDivisionError"
proof -
  obtain c where c: "calculate_crater_dimensions p 0 = Some c" "crater_diameter_km c = 0"
    using calculate_crater_dimensions_Some [of 0 p] by auto
  show ?thesis
    by (simp add: calculate_all_def Let_def assms c calculate_seismic_effects_zero)
qed

lemma calculate_all_negative_energy:
  assumes "effective_megatons (calculate_kinetic_energy p) < 0"
  shows "calculate_all p = Inl TypeError"
  by (simp add: calculate_all_def Let_def calculate_crater_dimensions_None [OF assms])

lemma calculate_all_Inr_positive:
  assumes "calculate_all p = Inr r"
  shows "0 < effective_megatons (calculate_kinetic_energy p)"
  using assms calculate_all_zero_energy [of p] calculate_all_negative_energy [of p]
  by (cases "effective_megatons (calculate_kinetic_energy p)" "0::real" rule: linorder_cases) auto

lemma calculate_all_Inr_fields:
  assumes "calculate_all p = Inr r"
  shows "energy r = calculate_kinetic_energy p \<and>
         calculate_crater_dimensions p (effective_megatons (calculate_kinetic_energy p)) =
           Some (crater r) \<and>
         calculate_seismic_effects (effective_energy (calculate_kinetic_energy p))
           (crater_diameter_km (crater r)) = Inr (seismic r) \<and>
         calculate_blast_effects (effective_megatons (calculate_kinetic_energy p)) =
           Inr (blast_effects r)"
  using assms unfolding calculate_all_def Let_def
  by (auto split: option.splits simp: bindE_Inr_iff)

subsection \<open>Impact evaluation: seismic and blast stages, summary\<close>

lemma mapE_all_Inr:
  "(\<And>x. x \<in> set xs \<Longrightarrow> \<not> isl (f x)) \<Longrightarrow> mapE f xs = Inr (map (\<lambda>x. projr (f x)) xs)"
proof (induction xs)
  case Nil then show ?case by simp
next
  case (Cons x xs)
  have "\<not> isl (f x)" using Cons.prems by simp
  then obtain y where y: "f x = Inr y" by (cases "f x") auto
  show ?case using Cons y by simp
qed

lemma map_filter_id_keys:
  "(\<And>x. x \<in> set xs \<Longrightarrow> (P x \<longrightarrow> g x = None) \<and> (\<not> P x \<longrightarrow> (\<exists>y. g x = Some (x, y)))) \<Longrightarrow>
     map fst (List.map_filter id (map g xs)) = filter (\<lambda>x. \<not> P x) xs"
proof (induction xs)
  case Nil then show ?case by simp
next
  case (Cons x xs)
  have IH: "map fst (List.map_filter id (map g xs)) = filter (\<lambda>x. \<not> P x) xs"
    by (rule Cons.IH) (simp add: Cons.prems)
  show ?case
  proof (cases "P x")
    case True
    then have "g x = None" using Cons.prems [of x] by simp
    then show ?thesis using True IH by (simp add: id_def)
  next
    case False
    then obtain y where "g x = Some (x, y)" using Cons.prems [of x] by auto
    then show ?thesis using False IH by (simp add: id_def)
  qed
qed

lemma seismic_intensity_inside:
  "real_of_int d < r \<Longrightarrow> seismic_intensity M r d = Inr None"
  by (simp add: seismic_intensity_def)

lemma seismic_intensity_outside:
  assumes "0 < r" "r \<le> real_of_int d"
  shows "\<exists>lbl. seismic_intensity M r d = Inr (Some (d, lbl))"
proof -
  have "0 < real_of_int d" using assms by linarith
  then have "\<not> real_of_int d / r \<le> 0" using assms by (simp add: not_le)
  then show ?thesis
    using assms by (simp add: seismic_intensity_def py_div_def math_log10_def Let_def)
qed

lemma calculate_seismic_effects_keys:
  assumes "0 < cd"
  shows "\<exists>s. calculate_seismic_effects E cd = Inr s \<and>
             map fst (seismic_intensities s) =
               filter (\<lambda>d. \<not> real_of_int d < cd / 2) seismic_distances"
proof -
  define M where "M = (if E > 0 then 0.67 * log 10 E - 5.87 else 0)"
  define f where "f = seismic_intensity M (cd / 2)"
  have r: "0 < cd / 2" using assms by simp
  have ok: "\<not> isl (f d)" for d
    using seismic_intensity_inside [of d "cd / 2" M] seismic_intensity_outside [OF r, of d M]
    by (cases "real_of_int d < cd / 2") (auto simp: f_def)
  have m: "mapE f seismic_distances = Inr (map (\<lambda>x. projr (f x)) seismic_distances)"
    by (rule mapE_all_Inr) (rule ok)
  have k: "map fst (List.map_filter id (map (\<lambda>x. projr (f x)) seismic_distances)) =
           filter (\<lambda>d. \<not> real_of_int d < cd / 2) seismic_distances"
  proof (rule map_filter_id_keys)
    fix x
    show "(real_of_int x < cd / 2 \<longrightarrow> projr (f x) = None) \<and>
          (\<not> real_of_int x < cd / 2 \<longrightarrow> (\<exists>y. projr (f x) = Some (x, y)))"
      using seismic_intensity_inside [of x "cd / 2" M] seismic_intensity_outside [OF r, of x M]
      by (auto simp: f_def)
  qed
  show ?thesis
    unfolding calculate_seismic_effects_def Let_def M_def [symmetric] f_def [symmetric]
    by (simp add: m k)
qed

lemma blast_effect_at_Inr:
  assumes "0 < e" "d \<noteq> 0"
  shows "\<exists>x. blast_effect_at e d = Inr (Some (d, x)) \<and>
           (overpressure_psi x \<ge> 5 \<longleftrightarrow> real_of_int d / e powr 0.33 < 2)"
proof -
  define q where "q = real_of_int d / e powr 0.33"
  have p: "e powr 0.33 \<noteq> 0" "\<not> e < 0" using assms by simp_all
  have "\<exists>x. blast_effect_at e d = Inr (Some (d, x)) \<and> (overpressure_psi x \<ge> 5 \<longleftrightarrow> q < 2)"
    apply (simp only: blast_effect_at_def py_pow_def py_div_def bindE_def p assms(2)
        if_False option.case sum.case)
    apply (simp only: flip: q_def)
    apply auto
    done
  then show ?thesis by (simp only: q_def)
qed

lemma calculate_blast_effects_Inr:
  assumes "0 < e"
  shows "\<exists>b. calculate_blast_effects e = Inr b \<and> map fst b = blast_distances \<and>
           (\<forall>x \<in> set b. overpressure_psi (snd x) \<ge> 5 \<longleftrightarrow> real_of_int (fst x) / e powr 0.33 < 2)"
proof -
  define f where "f = blast_effect_at e"
  have nz: "d \<in> set blast_distances \<Longrightarrow> d \<noteq> 0" for d by (auto simp: blast_distances_def)
  have ok: "d \<in> set blast_distances \<Longrightarrow> \<not> isl (f d)" for d
    using blast_effect_at_Inr [OF assms, of d] nz by (auto simp: f_def)
  have m: "mapE f blast_distances = Inr (map (\<lambda>x. projr (f x)) blast_distances)"
    by (rule mapE_all_Inr) (rule ok)
  define b where "b = List.map_filter id (map (\<lambda>x. projr (f x)) blast_distances)"
  have b: "calculate_blast_effects e = Inr b"
    by (simp add: calculate_blast_effects_def b_def m flip: f_def)
  have el: "\<exists>x. projr (f d) = Some (d, x) \<and>
              (overpressure_psi x \<ge> 5 \<longleftrightarrow> real_of_int d / e powr 0.33 < 2)"
    if "d \<in> set blast_distances" for d
    using blast_effect_at_Inr [OF assms, of d] nz [OF that] by (auto simp: f_def)
  have keys: "map fst b = filter (\<lambda>x. \<not> False) blast_distances"
    unfolding b_def by (rule map_filter_id_keys) (use el in auto)
  have mem: "overpressure_psi (snd x) \<ge> 5 \<longleftrightarrow> real_of_int (fst x) / e powr 0.33 < 2"
    if "x \<in> set b" for x
  proof -
    from that obtain d where d: "d \<in> set blast_distances" "projr (f d) = Some x"
      by (auto simp: b_def List.map_filter_def)
    with el [OF d(1)] show ?thesis by auto
  qed
  show ?thesis using b keys mem by auto
qed

lemma fold_blast_radius:
  "fold (\<lambda>item blast_radius.
           if overpressure_psi (snd item) \<ge> 5 then Some (fst item) else blast_radius) xs acc =
     (if filter (\<lambda>x. overpressure_psi (snd x) \<ge> 5) xs = [] then acc
      else Some (fst (last (filter (\<lambda>x. overpressure_psi (snd x) \<ge> 5) xs))))"
  by (induction xs arbitrary: acc) auto

lemma find_blast_radius_None:
  "(\<And>x. x \<in> set xs \<Longrightarrow> \<not> overpressure_psi (snd x) \<ge> 5) \<Longrightarrow> find_blast_radius xs = None"
  by (simp add: find_blast_radius_def fold_blast_radius filter_empty_conv)

lemma find_blast_radius_Some:
  "x \<in> set xs \<Longrightarrow> overpressure_psi (snd x) \<ge> 5 \<Longrightarrow> \<exists>d. find_blast_radius xs = Some d"
  by (auto simp: find_blast_radius_def fold_blast_radius filter_empty_conv)

lemma calculate_tsunami_effects_Inr:
  assumes "0 \<le> e"
  shows "\<exists>ts. (if target_type p = ''water'' then calculate_tsunami_effects p e else Inr None) = Inr ts \<and>
           (\<forall>t. ts = Some t \<longrightarrow> tsunami_effects t \<noteq> [])"
  using assms
  by (simp add: calculate_tsunami_effects_def math_sqrt_def Let_def tsunami_distances_def)

lemma calculate_all_succeeds:
  assumes "0 < effective_megatons (calculate_kinetic_energy p)"
  shows "\<exists>r. calculate_all p = Inr r \<and>
           (\<forall>t. tsunami r = Some t \<longrightarrow> tsunami_effects t \<noteq> [])"
proof -
  define e where "e = effective_megatons (calculate_kinetic_energy p)"
  have e: "0 < e" using assms by (simp add: e_def)
  obtain c where c: "calculate_crater_dimensions p e = Some c"
    "crater_diameter_km c = (if target_type p = ''land'' then 1.8 else 2.2) * e powr 0.28"
    using calculate_crater_dimensions_Some [of e p] e by auto
  have "0 < crater_diameter_km c" using e by (simp add: c(2))
  then obtain s where s:
    "calculate_seismic_effects (effective_energy (calculate_kinetic_energy p))
       (crater_diameter_km c) = Inr s"
    using calculate_seismic_effects_keys by blast
  obtain b where b: "calculate_blast_effects e = Inr b"
    using calculate_blast_effects_Inr [OF e] by blast
  obtain ts where ts:
    "(if target_type p = ''water'' then calculate_tsunami_effects p e else Inr None) = Inr ts"
    "\<forall>t. ts = Some t \<longrightarrow> tsunami_effects t \<noteq> []"
    using calculate_tsunami_effects_Inr [of e p] e by auto
  show ?thesis
    unfolding calculate_all_def Let_def e_def [symmetric]
    using ts(2) by (simp add: c(1) s b ts(1))
qed

lemma get_summary_unbound:
  assumes "find_blast_radius (blast_effects r) = None"
  shows "get_summary r = Inl UnboundLocalError"
  by (simp add: get_summary_def summarize_regional_effects_def assms Let_def)

lemma get_summary_succeeds:
  assumes "find_blast_radius (blast_effects r) = Some d"
    and "\<forall>t. tsunami r = Some t \<longrightarrow> tsunami_effects t \<noteq> []"
  shows "\<exists>sm. get_summary r = Inr sm"
  using assms
  by (auto simp: get_summary_def summarize_regional_effects_def Let_def
      split: option.splits list.splits)

text \<open>Small yield: no distance of the ladder reaches 5 psi.\<close>

lemma calculate_impact_small:
  assumes e: "0 < effective_megatons (calculate_kinetic_energy
                \<lparr> diameter = d, velocity = v, density = rho, angle = a, target_type = t \<rparr>)"
    and small: "effective_megatons (calculate_kinetic_energy
                \<lparr> diameter = d, velocity = v, density = rho, angle = a, target_type = t \<rparr>) powr 0.33 \<le> 1 / 2"
  shows "calculate_impact d v rho a t = Inl UnboundLocalError"
proof -
  define p where "p = \<lparr> diameter = d, velocity = v, density = rho, angle = a, target_type = t \<rparr>"
  define em where "em = effective_megatons (calculate_kinetic_energy p)"
  have e': "0 < em" and s': "em powr 0.33 \<le> 1 / 2" using e small by (simp_all add: em_def p_def)
  obtain r where r: "calculate_all p = Inr r"
    using calculate_all_succeeds [of p] e' by (auto simp: em_def)
  have bl: "calculate_blast_effects em = Inr (blast_effects r)"
    using calculate_all_Inr_fields [OF r] by (simp add: em_def)
  obtain b where b: "calculate_blast_effects em = Inr b" "map fst b = blast_distances"
    "\<forall>x \<in> set b. overpressure_psi (snd x) \<ge> 5 \<longleftrightarrow> real_of_int (fst x) / em powr 0.33 < 2"
    using calculate_blast_effects_Inr [OF e'] by blast
  have beq: "blast_effects r = b" using bl b(1) by simp
  have far: "\<not> overpressure_psi (snd x) \<ge> 5" if "x \<in> set b" for x
  proof -
    have "fst x \<in> set blast_distances" using that b(2) by (metis image_eqI set_map)
    then have "1 \<le> real_of_int (fst x)" by (auto simp: blast_distances_def)
    moreover have "0 < em powr 0.33" using e' by simp
    ultimately have "2 \<le> real_of_int (fst x) / em powr 0.33"
      using s' by (simp add: field_simps)
    then show ?thesis using b(3) that by auto
  qed
  have "find_blast_radius (blast_effects r) = None"
    unfolding beq by (rule find_blast_radius_None) (rule far)
  then show ?thesis
    by (simp add: calculate_impact_def Let_def r get_summary_unbound flip: p_def)
qed

text \<open>Yield of at least one unit: the blast radius is bound and the evaluation returns.\<close>

lemma calculate_impact_succeeds:
  assumes big: "1 \<le> effective_megatons (calculate_kinetic_energy
                \<lparr> diameter = d, velocity = v, density = rho, angle = a, target_type = t \<rparr>)"
  shows "\<exists>rep. calculate_impact d v rho a t = Inr rep \<and>
           parameters rep = \<lparr> diameter = d, velocity = v, density = rho, angle = a, target_type = t \<rparr> \<and>
           calculate_all \<lparr> diameter = d, velocity = v, density = rho, angle = a, target_type = t \<rparr> =
             Inr (calculations rep)"
proof -
  define p where "p = \<lparr> diameter = d, velocity = v, density = rho, angle = a, target_type = t \<rparr>"
  define em where "em = effective_megatons (calculate_kinetic_energy p)"
  have e': "0 < em" and b': "1 \<le> em" using big by (simp_all add: em_def p_def)
  obtain r where r: "calculate_all p = Inr r"
    and tn: "\<forall>t. tsunami r = Some t \<longrightarrow> tsunami_effects t \<noteq> []"
    using calculate_all_succeeds [of p] e' by (auto simp: em_def)
  have bl: "calculate_blast_effects em = Inr (blast_effects r)"
    using calculate_all_Inr_fields [OF r] by (simp add: em_def)
  obtain b where b: "calculate_blast_effects em = Inr b" "map fst b = blast_distances"
    "\<forall>x \<in> set b. overpressure_psi (snd x) \<ge> 5 \<longleftrightarrow> real_of_int (fst x) / em powr 0.33 < 2"
    using calculate_blast_effects_Inr [OF e'] by blast
  have beq: "blast_effects r = b" using bl b(1) by simp
  have "1 \<in> fst ` set b" using b(2) by (metis list.set_intros(1) blast_distances_def set_map)
  then obtain x where x: "x \<in> set b" "fst x = 1" by auto
  have "1 \<le> em powr 0.33" using b' by (simp add: ge_one_powr_ge_zero)
  moreover have "0 < em powr 0.33" using e' by simp
  ultimately have "1 / em powr 0.33 \<le> 1" by (simp add: divide_le_eq_1)
  then have "real_of_int (fst x) / em powr 0.33 < 2" using x(2) by simp
  then have "overpressure_psi (snd x) \<ge> 5" using b(3) x(1) by auto
  then obtain br where "find_blast_radius (blast_effects r) = Some br"
    using find_blast_radius_Some [OF x(1)] beq by auto
  then obtain sm where sm: "get_summary r = Inr sm"
    using get_summary_succeeds tn by blast
  show ?thesis
    by (simp add: calculate_impact_def Let_def r sm flip: p_def)
qed

subsection \<open>Faults on well-formed input\<close>

lemma effective_megatons_value:
  "effective_megatons (calculate_kinetic_energy
     \<lparr> diameter = d, velocity = v, density = rho, angle = a, target_type = t \<rparr>) =
   0.5 * ((4 / 3) * pi * (d / 2) ^ 3 * rho) * (v * 1000) ^ 2 * sin (a * pi / 180) /
     (4.184 * 10 ^ 12)"
  by (simp add: calculate_kinetic_energy_def TNT_EQUIVALENT_def math_radians_def Let_def)

lemma sqrt2_le_2: "sqrt 2 \<le> 2"
  by (rule real_le_lsqrt) simp_all

lemma small_powr:
  assumes "0 \<le> (e::real)" "e \<le> 1 / 16"
  shows "e powr 0.33 \<le> 1 / 2"
proof -
  have a: "e powr 0.33 \<le> (1 / 16) powr 0.33"
    using assms by (intro powr_mono2) simp_all
  have "(1 / 16 :: real) = (1 / 2) powr 4" by (simp add: power_one_over)
  then have "(1 / 16 :: real) powr 0.33 = ((1 / 2) powr 4) powr 0.33" by (simp only:)
  also have "\<dots> = (1 / 2) powr (4 * 0.33)" by (rule powr_powr)
  finally have b: "(1 / 16 :: real) powr 0.33 = (1 / 2) powr 1.32" by simp
  have c: "(1 / 2 :: real) powr 1.32 \<le> (1 / 2) powr 1" by (intro powr_mono') simp_all
  show ?thesis using a b c by simp
qed

lemma energy_1m:
  "effective_megatons (calculate_kinetic_energy
     \<lparr> diameter = 1, velocity = 10, density = 3000, angle = 45, target_type = ''land'' \<rparr>) =
   pi * sqrt 2 * (12500000000 / 4184000000000)"
  by (simp add: effective_megatons_value sin_45 power3_eq_cube power2_eq_square)

lemma laser_ablation_deflection_ValueError:
  assumes "0 < asteroid_mass m" "asteroid_mass m < mission_duration_years m * 315576"
  shows "laser_ablation_deflection m = Inl ValueError"
proof -
  have "asteroid_mass m / (asteroid_mass m - mission_duration_years m * 315576) \<le> 0"
    using assms by (simp add: divide_le_0_iff)
  then show ?thesis
    using assms
    by (simp add: laser_ablation_deflection_def py_div_def math_log_def Let_def mult.commute)
qed

text \<open>
  Claim C3. Three well-formed inputs on which the code faults: the impact evaluation of
  a 1 m body at 10 km/s never binds \<open>blast_radius\<close> in the regional summary
  (\<open>UnboundLocalError\<close>); an impact angle of 0 gives a crater radius of 0 and a
  division by it (\<open>ZeroDivisionError\<close>); and the deflection comparison of a 5 m body
  with the default mission duration of 5 years takes the logarithm of a negative number
  in the laser-ablation model (\<open>ValueError\<close>).
\<close>

theorem C3_runtime_faults_on_well_formed_input:
  "calculate_impact 1 10 3000 45 ''land'' = Inl UnboundLocalError \<and>
   calculate_impact 100 20 3000 0 ''land'' = Inl ZeroDivisionError \<and>
   simulate_deflection_scenario 5 20 10 impact_date ''kinetic_impactor'' 5 = Inl ValueError"
proof (intro conjI)
  have b: "pi * sqrt 2 \<le> 4 * 2"
    using pi_less_4 sqrt2_le_2 by (intro mult_mono) simp_all
  have pos: "0 < pi * sqrt 2" by simp
  show "calculate_impact 1 10 3000 45 ''land'' = Inl UnboundLocalError"
  proof (rule calculate_impact_small)
    show "0 < effective_megatons (calculate_kinetic_energy
           \<lparr> diameter = 1, velocity = 10, density = 3000, angle = 45, target_type = ''land'' \<rparr>)"
      unfolding energy_1m using pos by simp
    show "effective_megatons (calculate_kinetic_energy
           \<lparr> diameter = 1, velocity = 10, density = 3000, angle = 45, target_type = ''land'' \<rparr>)
           powr 0.33 \<le> 1 / 2"
      unfolding energy_1m using pos b by (intro small_powr) simp_all
  qed
next
  have "effective_megatons (calculate_kinetic_energy
     \<lparr> diameter = 100, velocity = 20, density = 3000, angle = 0, target_type = ''land'' \<rparr>) = 0"
    by (simp add: effective_megatons_value)
  then show "calculate_impact 100 20 3000 0 ''land'' = Inl ZeroDivisionError"
    by (simp add: calculate_impact_def Let_def calculate_all_zero_energy)
next
  define m where "m = \<lparr> strategy = ''kinetic_impactor'',
       launch_date = impact_date - (10 * 365.25) * 86400,
       asteroid_diameter = 5, asteroid_velocity = 20,
       asteroid_mass = (4 / 3) * pi * (5 / 2) ^ 3 * 3000,
       warning_time_years = 10, mission_duration_years = 5 \<rparr>"
  have mass: "0 < asteroid_mass m" "asteroid_mass m < 250000"
    using pi_less_4 by (simp_all add: m_def power3_eq_cube)
  obtain rq where rq: "calculate_required_deflection m impact_date = Inr rq"
    using calculate_required_deflection_Inr [of impact_date m] by (auto simp: m_def)
  obtain k where k: "kinetic_impactor_deflection m = Inr k"
    using kinetic_impactor_deflection_Inr [of m] mass by auto
  obtain g where g: "gravity_tractor_deflection m = Inr g"
    using gravity_tractor_deflection_Inr [of m] by auto
  obtain n where n: "nuclear_deflection m = Inr n"
    using nuclear_deflection_Inr [of m] mass by auto
  have l: "laser_ablation_deflection m = Inl ValueError"
    using mass by (intro laser_ablation_deflection_ValueError) (simp_all add: m_def)
  have "compare_all_strategies m impact_date = Inl ValueError"
    by (simp add: compare_all_strategies_def rq k g n l Let_def)
  then show "simulate_deflection_scenario 5 20 10 impact_date ''kinetic_impactor'' 5 =
      Inl ValueError"
    by (simp add: simulate_deflection_scenario_def Let_def m_def)
qed

subsection \<open>Seismic entries inside the crater\<close>

lemma energy_1km:
  "effective_megatons (calculate_kinetic_energy
     \<lparr> diameter = 1000, velocity = 20, density = 3000, angle = 90, target_type = ''land'' \<rparr>) =
   pi * (100000000000000000000 / 4184000000000)"
  by (simp add: effective_megatons_value)

lemma powr_028_lower:
  assumes "2 ^ 25 \<le> (e::real)"
  shows "128 \<le> e powr 0.28"
proof -
  have "(2 ^ 25 :: real) powr 0.28 \<le> e powr 0.28"
    using assms by (intro powr_mono2) simp_all
  moreover have "(2 ^ 25 :: real) = 2 powr 25" by simp
  then have "(2 ^ 25 :: real) powr 0.28 = (2 powr 25) powr 0.28" by (simp only:)
  then have "(2 ^ 25 :: real) powr 0.28 = 2 powr (25 * 0.28)" by (simp only: powr_powr)
  then have "(2 ^ 25 :: real) powr 0.28 = 2 powr 7" by simp
  ultimately show ?thesis by simp
qed

lemma powr_028_upper:
  assumes "0 \<le> (e::real)" "e \<le> 2 ^ 27"
  shows "e powr 0.28 \<le> 256"
proof -
  have a: "e powr 0.28 \<le> (2 ^ 27 :: real) powr 0.28"
    using assms by (intro powr_mono2) simp_all
  have "(2 ^ 27 :: real) = 2 powr 27" by simp
  then have "(2 ^ 27 :: real) powr 0.28 = (2 powr 27) powr 0.28" by (simp only:)
  then have b: "(2 ^ 27 :: real) powr 0.28 = 2 powr (27 * 0.28)" by (simp only: powr_powr)
  have c: "(2 :: real) powr (27 * 0.28) \<le> 2 powr 8" by (intro powr_mono) simp_all
  show ?thesis using a b c by simp
qed

text \<open>
  Claim C5. For the impact of a 1 km body at 20 km/s and 90 degrees on land the crater
  radius exceeds 100 km, and the seismic intensity mapping has entries for the
  distances 500, 1000 and 5000 only: the ladder distances 10, 50 and 100, which lie inside
  the crater radius, have no entry.
\<close>

theorem C5_missing_entries_inside_crater:
  "\<exists>rep. calculate_impact 1000 20 3000 90 ''land'' = Inr rep \<and>
     100 < crater_diameter_km (crater (calculations rep)) / 2 \<and>
     map fst (seismic_intensities (seismic (calculations rep))) = [500, 1000, 5000]"
proof -
  define p where "p = \<lparr> diameter = 1000, velocity = 20, density = 3000, angle = 90,
    target_type = ''land'' \<rparr>"
  define e where "e = effective_megatons (calculate_kinetic_energy p)"
  have ev: "e = pi * (100000000000000000000 / 4184000000000)"
    by (simp add: e_def p_def energy_1km)
  have lo: "2 ^ 25 \<le> e" using pi_ge_two by (simp add: ev)
  have hi: "e \<le> 2 ^ 27" using pi_less_4 by (simp add: ev)
  have e1: "1 \<le> e" using lo by simp
  obtain rep where rep: "calculate_impact 1000 20 3000 90 ''land'' = Inr rep"
    and all: "calculate_all p = Inr (calculations rep)"
    using calculate_impact_succeeds [of 1000 20 3000 90 "''land''"] e1
    by (auto simp: e_def p_def)
  note f = calculate_all_Inr_fields [OF all]
  have cr: "calculate_crater_dimensions p e = Some (crater (calculations rep))"
    using f by (simp add: e_def)
  have cd: "crater_diameter_km (crater (calculations rep)) = 1.8 * e powr 0.28"
    using calculate_crater_dimensions_Some [of e p] e1 cr by (auto simp: p_def)
  have lo': "100 < crater_diameter_km (crater (calculations rep)) / 2"
    using powr_028_lower [OF lo] by (simp add: cd)
  have hi': "crater_diameter_km (crater (calculations rep)) / 2 \<le> 500"
    using powr_028_upper [OF _ hi] e1 by (simp add: cd)
  have pos: "0 < crater_diameter_km (crater (calculations rep))" using lo' by simp
  obtain s where s: "calculate_seismic_effects (effective_energy (calculate_kinetic_energy p))
        (crater_diameter_km (crater (calculations rep))) = Inr s"
    and keys: "map fst (seismic_intensities s) =
        filter (\<lambda>d. \<not> real_of_int d < crater_diameter_km (crater (calculations rep)) / 2)
          seismic_distances"
    using calculate_seismic_effects_keys [OF pos] by blast
  have "s = seismic (calculations rep)" using f s by simp
  then have "map fst (seismic_intensities (seismic (calculations rep))) = [500, 1000, 5000]"
    using keys lo' hi' by (simp add: seismic_distances_def)
  with rep lo' show ?thesis by (intro exI [of _ rep] conjI)
qed

subsection \<open>Parameter validation\<close>

lemma sin_120: "sin (2 * pi / 3) = sqrt 3 / 2"
proof -
  have "2 * pi / 3 = pi - pi / 3" by simp
  then have "sin (2 * pi / 3) = sin (pi - pi / 3)" by (simp only:)
  also have "\<dots> = sin (pi / 3)" by (rule sin_pi_minus)
  finally show ?thesis by (simp only: sin_60)
qed

lemma energy_negative_inputs:
  "effective_megatons (calculate_kinetic_energy
     \<lparr> diameter = - 1000, velocity = - 20, density = - 3000, angle = 120,
       target_type = ''land'' \<rparr>) =
   pi * sqrt 3 * (50000000000000000000 / 4184000000000)"
  by (simp add: effective_megatons_value sin_120)

lemma calculate_all_velocity_sign:
  "calculate_all \<lparr> diameter = d, velocity = - v, density = rho, angle = a, target_type = t \<rparr> =
   calculate_all \<lparr> diameter = d, velocity = v, density = rho, angle = a, target_type = t \<rparr>"
proof -
  have k: "calculate_kinetic_energy
             \<lparr> diameter = d, velocity = - v, density = rho, angle = a, target_type = t \<rparr> =
           calculate_kinetic_energy
             \<lparr> diameter = d, velocity = v, density = rho, angle = a, target_type = t \<rparr>"
    by (simp add: calculate_kinetic_energy_def Let_def)
  have c: "calculate_crater_dimensions
             \<lparr> diameter = d, velocity = - v, density = rho, angle = a, target_type = t \<rparr> =
           calculate_crater_dimensions
             \<lparr> diameter = d, velocity = v, density = rho, angle = a, target_type = t \<rparr>"
    by (simp add: calculate_crater_dimensions_def fun_eq_iff)
  have ts: "calculate_tsunami_effects
             \<lparr> diameter = d, velocity = - v, density = rho, angle = a, target_type = t \<rparr> =
           calculate_tsunami_effects
             \<lparr> diameter = d, velocity = v, density = rho, angle = a, target_type = t \<rparr>"
    by (simp add: calculate_tsunami_effects_def fun_eq_iff)
  have tt: "target_type
             \<lparr> diameter = d, velocity = - v, density = rho, angle = a, target_type = t \<rparr> =
           target_type
             \<lparr> diameter = d, velocity = v, density = rho, angle = a, target_type = t \<rparr>"
    by simp
  show ?thesis
    unfolding calculate_all_def k c ts tt ..
qed

lemma calculate_impact_parameters:
  "calculate_impact d v rho a t = Inr rep \<Longrightarrow>
     parameters rep = \<lparr> diameter = d, velocity = v, density = rho, angle = a, target_type = t \<rparr>"
  by (auto simp: calculate_impact_def Let_def bindE_Inr_iff)

text \<open>
  Claim C2, amended. No parameter is validated or clamped. The \<open>Asteroid\<close> constructor
  stores diameter and velocity as passed, of any sign or \<open>None\<close>; its density is the
  table value when a known type name is passed and otherwise the density passed, with
  only a falsy one (\<open>None\<close> or 0) replaced by 3000; its angle is the angle passed,
  whatever its range, with only a falsy one replaced by 45. An impact evaluation that
  returns echoes its five parameters unchanged, and a velocity \<open>- v\<close> evaluates exactly
  as \<open>v\<close> does, in result and in fault.
\<close>

theorem C2_no_parameter_validation:
  "Asteroid_init diam vel dens ang type_name =
     \<lparr> ast_diameter = diam, ast_velocity = vel,
       ast_density =
         (if type_name = Some ''rocky'' then 3000
          else if type_name = Some ''metallic'' then 8000
          else if type_name = Some ''icy'' then 1000
          else case dens of None \<Rightarrow> 3000 | Some x \<Rightarrow> if x = 0 then 3000 else x),
       ast_angle = (case ang of None \<Rightarrow> 45 | Some x \<Rightarrow> if x = 0 then 45 else x) \<rparr> \<and>
   (calculate_impact d v rho a t = Inr rep \<longrightarrow>
      parameters rep =
        \<lparr> diameter = d, velocity = v, density = rho, angle = a, target_type = t \<rparr>) \<and>
   map_sum id (\<lambda>r. (calculations r, summary r)) (calculate_impact d (- v) rho a t) =
   map_sum id (\<lambda>r. (calculations r, summary r)) (calculate_impact d v rho a t)"
proof (intro conjI impI)
  show "Asteroid_init diam vel dens ang type_name =
     \<lparr> ast_diameter = diam, ast_velocity = vel,
       ast_density =
         (if type_name = Some ''rocky'' then 3000
          else if type_name = Some ''metallic'' then 8000
          else if type_name = Some ''icy'' then 1000
          else case dens of None \<Rightarrow> 3000 | Some x \<Rightarrow> if x = 0 then 3000 else x),
       ast_angle = (case ang of None \<Rightarrow> 45 | Some x \<Rightarrow> if x = 0 then 45 else x) \<rparr>"
    by (auto simp: Asteroid_init_def py_or_def DENSITY_TYPES_def split: option.splits)
next
  assume "calculate_impact d v rho a t = Inr rep"
  then show "parameters rep =
      \<lparr> diameter = d, velocity = v, density = rho, angle = a, target_type = t \<rparr>"
    by (rule calculate_impact_parameters)
next
  show "map_sum id (\<lambda>r. (calculations r, summary r)) (calculate_impact d (- v) rho a t) =
        map_sum id (\<lambda>r. (calculations r, summary r)) (calculate_impact d v rho a t)"
    unfolding calculate_impact_def Let_def calculate_all_velocity_sign
    by (auto simp: bindE_def split: sum.splits)
qed

text \<open>
  A constructor call with a density that the type name overrides and an angle out of
  range, and the impact of a 1 km body at 20 km/s and 90 degrees on land, which returns.
\<close>

theorem C2_witness:
  "Asteroid_init (Some (- 1000)) None (Some 500) (Some 120) (Some ''metallic'') =
     \<lparr> ast_diameter = Some (- 1000), ast_velocity = None, ast_density = 8000,
       ast_angle = 120 \<rparr> \<and>
   calculate_impact 1000 20 3000 90 ''land'' =
     Inr (projr (calculate_impact 1000 20 3000 90 ''land'')) \<and>
   parameters (projr (calculate_impact 1000 20 3000 90 ''land'')) =
     \<lparr> diameter = 1000, velocity = 20, density = 3000, angle = 90, target_type = ''land'' \<rparr> \<and>
   map_sum id (\<lambda>r. (calculations r, summary r)) (calculate_impact 1000 (- 20) 3000 90 ''land'') =
   map_sum id (\<lambda>r. (calculations r, summary r)) (calculate_impact 1000 20 3000 90 ''land'')"
proof -
  have "1 \<le> effective_megatons (calculate_kinetic_energy
     \<lparr> diameter = 1000, velocity = 20, density = 3000, angle = 90, target_type = ''land'' \<rparr>)"
    using pi_ge_two by (simp add: energy_1km)
  then obtain rep where rep: "calculate_impact 1000 20 3000 90 ''land'' = Inr rep"
    using calculate_impact_succeeds by blast
  show ?thesis
    using C2_no_parameter_validation
      [of "Some (- 1000)" None "Some 500" "Some 120" "Some ''metallic''"
          1000 20 3000 90 "''land''" rep]
    by (simp add: rep)
qed

text \<open>
  Claim C2 as stated fails: with diameter, velocity and density all negative and the
  angle 120 degrees the impact evaluation returns a report, whose parameters are the ones
  passed, and the \<open>Asteroid\<close> constructor stores the same values.
\<close>

theorem C2_counterexample:
  "\<not> isl (calculate_impact (- 1000) (- 20) (- 3000) 120 ''land'') \<and>
   parameters (projr (calculate_impact (- 1000) (- 20) (- 3000) 120 ''land'')) =
     \<lparr> diameter = - 1000, velocity = - 20, density = - 3000, angle = 120,
       target_type = ''land'' \<rparr> \<and>
   Asteroid_init (Some (- 1000)) (Some (- 20)) (Some (- 3000)) (Some 120) None =
     \<lparr> ast_diameter = Some (- 1000), ast_velocity = Some (- 20), ast_density = - 3000,
       ast_angle = 120 \<rparr>"
proof -
  have "1 \<le> pi" using pi_ge_two by linarith
  moreover have "1 \<le> sqrt 3" by simp
  ultimately have "1 * 1 \<le> pi * sqrt 3" by (intro mult_mono) simp_all
  then have "1 * 1 \<le> (pi * sqrt 3) * (50000000000000000000 / 4184000000000)"
    by (intro mult_mono) simp_all
  then have "1 \<le> effective_megatons (calculate_kinetic_energy
     \<lparr> diameter = - 1000, velocity = - 20, density = - 3000, angle = 120,
       target_type = ''land'' \<rparr>)"
    by (simp add: energy_negative_inputs)
  then obtain rep where rep: "calculate_impact (- 1000) (- 20) (- 3000) 120 ''land'' = Inr rep"
    "parameters rep = \<lparr> diameter = - 1000, velocity = - 20, density = - 3000, angle = 120,
       target_type = ''land'' \<rparr>"
    using calculate_impact_succeeds by blast
  show ?thesis
    by (simp add: rep Asteroid_init_def py_or_def DENSITY_TYPES_def)
qed

subsection \<open>Crater scaling\<close>




end
